theory Spec2Isabelle
  imports Complex_Main "HOL-Library.Signed_Division"
begin

section \<open>The meson-cli bridge workflow\<close>

text \<open>
  A shallow embedding of packages/meson-cli: types.ts, api.ts, signature.ts, contract.ts
  and index.ts (the two flows \<open>runBridge\<close> and \<open>runContractBridge\<close> with their
  validators). In the sources at hand the code of contract.ts and of index.ts follows
  that of signature.ts in the one file signature.ts.
  Every function that throws returns a sum, \<open>Inl\<close> the error. Every function that talks
  to the relayer, to the chain or to the console also returns the list of the operations
  it performed, in order.
\<close>

subsection \<open>JavaScript values\<close>

text \<open>
  A \<open>string | undefined\<close> is a \<open>string option\<close>. JavaScript's truthiness of such a value:
  \<open>undefined\<close> and the empty string are falsy.
\<close>

fun truthy :: "string option \<Rightarrow> bool" where
  "truthy None = False"
| "truthy (Some s) = (s \<noteq> [])"

text \<open>\<open>a || b\<close> on two optional strings.\<close>

definition or_else :: "string option \<Rightarrow> string option \<Rightarrow> string option" where
  "or_else a b = (if truthy a then a else b)"

text \<open>The string of an optional string; it is read only where the value is truthy.\<close>

definition unwrap :: "string option \<Rightarrow> string" where
  "unwrap a = (case a of None \<Rightarrow> [] | Some s \<Rightarrow> s)"

text \<open>
  A JavaScript \<open>number\<close>: NaN, the two infinities, or a finite double, which is a
  rational. Only comparisons are made on numbers here, and those are exact.
\<close>

datatype number = NaN | NegInfinity | Num rat | PosInfinity

text \<open>\<open>a < b\<close> on numbers: false as soon as one side is NaN.\<close>

fun lt :: "number \<Rightarrow> number \<Rightarrow> bool" where
  "lt NaN _ = False"
| "lt _ NaN = False"
| "lt (Num a) (Num b) = (a < b)"
| "lt NegInfinity NegInfinity = False"
| "lt NegInfinity _ = True"
| "lt _ NegInfinity = False"
| "lt PosInfinity _ = False"
| "lt _ PosInfinity = True"

text \<open>\<open>a > b\<close> is \<open>b < a\<close> with the operands evaluated in the other order.\<close>

definition gt :: "number \<Rightarrow> number \<Rightarrow> bool" where
  "gt a b = lt b a"

text \<open>
  \<open>s.split(sep)\<close> for a one-character separator. The result of \<open>split\<close> is never the
  empty array, so it is given as its first piece and the list of the other pieces.
\<close>

fun split :: "char \<Rightarrow> string \<Rightarrow> string \<times> string list" where
  "split sep [] = ([], [])"
| "split sep (c # cs) =
     (case split sep cs of (p, ps) \<Rightarrow>
        if c = sep then ([], p # ps) else (c # p, ps))"

text \<open>
  \<open>const [chain, token] = s.split(':')\<close>: the second name is \<open>undefined\<close> when the string
  has no colon; pieces after the second are dropped.
\<close>

definition parseChainToken :: "string \<Rightarrow> string \<times> string option" where
  "parseChainToken s =
     (case split CHR '':'' s of (chain, rest) \<Rightarrow>
        (chain, case rest of [] \<Rightarrow> None | token # _ \<Rightarrow> Some token))"

subsection \<open>types.ts\<close>

record token =
  token_id :: string
  token_addr :: "string option"
  token_min :: "string option"
  token_max :: "string option"

record chain =
  chain_id :: string
  chain_name :: string
  chain_chainId :: string
  chain_address :: string
  chain_destinationChainOnly :: "bool option"
  chain_tokens :: "token list"

record chainLimit =
  limit_id :: string
  limit_name :: string
  limit_tokens :: "token list"

record fee =
  serviceFee :: string
  lpFee :: string
  totalFee :: string

record converted =
  converted_amount :: string
  converted_token :: string

record signingRequest =
  signing_message :: string
  signing_hash :: string

record encodeSwapResult =
  res_encoded :: string
  res_fromAddress :: "string option"
  res_fromContract :: "string option"
  res_recipient :: string
  res_fee :: fee
  res_converted :: "converted option"
  res_signingRequest :: "signingRequest option"
  res_initiator :: "string option"

record swapResult =
  swapId :: string

record apiErrorData =
  data_code :: string

record apiError =
  error_code :: int
  error_message :: string
  error_data :: "apiErrorData option"

text \<open>\<open>MesonApiResponse<T>\<close>: each of the two fields is present or absent.\<close>

record 'a mesonApiResponse =
  result :: "'a option"
  error :: "apiError option"

record encodeSwapParams =
  par_from :: string
  par_to :: string
  par_amount :: string
  par_fromAddress :: string
  par_recipient :: string
  par_fromContract :: "bool option"
  par_dataToContract :: "string option"

text \<open>
  \<open>BridgeOptions\<close>, with the fields the two commands read, and the options the
  \<open>bridge-contract\<close> command adds to it (\<open>BridgeOptions & {...}\<close>). Both flags default to
  false on the command line, so they are booleans.
\<close>

record bridgeOptions =
  opt_from :: string
  opt_to :: string
  opt_amount :: string
  opt_recipient :: string
  opt_privateKey :: "string option"
  opt_dryRun :: bool
  opt_debug :: bool

record contractOptions = bridgeOptions +
  opt_mesonContract :: "string option"
  opt_transferContract :: "string option"
  opt_deployIfMissing :: bool
  opt_rpcUrl :: string

subsection \<open>Errors and operations\<close>

text \<open>
  The code throws \<open>Error\<close> objects that differ in their message only. Each constructor
  below is one throw site (or one kind of failure of a library call) and carries the
  values the site puts into its message; the names are the specification's where it
  has one.
  \<^item> \<open>MissingPrivateKeyError\<close>: "Private key must be provided ...".
  \<^item> \<open>InvalidKeyError\<close>: \<open>new ethers.Wallet(privateKey)\<close> rejected the key.
  \<^item> \<open>SigningError\<close>: signing failed; the argument is the library's failure.
  \<^item> \<open>TransportError\<close>: what \<open>axios\<close> threw, rethrown unchanged.
  \<^item> \<open>ServiceError\<close>: "Error <operation>: <message of the error envelope>".
  \<^item> \<open>ProtocolError\<close>: "Invalid response format from Meson API".
  \<^item> \<open>UnsupportedChainError type chainId\<close>, \<open>UnsupportedTokenError type tokenId chainId\<close>.
  \<^item> \<open>AmountOutOfRangeError amount tokenId chainId minSwap maxSwap\<close>.
  \<^item> \<open>EncodeIncompleteError\<close>: "Failed to encode swap: missing required data in response".
  \<^item> \<open>ContractAddressNotFoundError chain\<close>: "Could not find Meson contract address ...".
  \<^item> \<open>MissingIntermediaryContractError\<close>: "TransferToMeson contract address not provided
    and deployment not requested".
  \<^item> \<open>DeployError\<close>, \<open>ContractCallError\<close>: a failure of the deployment, or of building,
    estimating, sending or confirming the call; the argument is the library's failure.
\<close>

datatype operation =
    FetchingSupportedChains | FetchingSwapLimits | EncodingSwap
  | SubmittingSwap | SubmittingContractSwap

datatype error =
    MissingPrivateKeyError
  | InvalidKeyError
  | SigningError string
  | TransportError string
  | ServiceError operation string
  | ProtocolError
  | UnsupportedChainError string string
  | UnsupportedTokenError string "string option" string
  | AmountOutOfRangeError number "string option" string number number
  | EncodeIncompleteError
  | ContractAddressNotFoundError string
  | MissingIntermediaryContractError
  | DeployError string
  | ContractCallError string

text \<open>
  A request sent to the relayer (api.ts), with its path parameter and body:
  \<open>GET /list\<close>, \<open>GET /limits\<close>, \<open>POST /swap\<close>,
  \<open>POST /swap/{encoded}\<close> with \<open>fromAddress\<close>, \<open>recipient\<close> and \<open>signature\<close>, and
  \<open>POST /swap/from-contract/{encoded}\<close> with the transaction hash.
\<close>

datatype request =
    GET_list
  | GET_limits
  | POST_swap encodeSwapParams
  | POST_swap_encoded string string string string
  | POST_swap_from_contract string string

text \<open>The transaction that \<open>populateTransaction\<close> builds; the core never looks into it.\<close>

record transaction =
  tx_to :: string
  tx_data :: string
  tx_value :: int

text \<open>The line of the contract flow's dry-run report about the TransferToMeson contract.\<close>

datatype transferReport = Provided string | WillDeploy | NotRequested

text \<open>
  What a run does to its collaborators, in order:
  \<^item> \<open>Request\<close>: one HTTP request to the relayer;
  \<^item> \<open>SignHash hash\<close>: \<open>signMessageHash\<close> was called on the hash;
  \<^item> \<open>Deploy mesonContractAddress\<close>: \<open>factory.deploy\<close> of a TransferToMeson contract with
    that constructor argument;
  \<^item> \<open>PopulateTransaction contract encodedSwap initiator amount\<close>: the call was built;
  \<^item> \<open>EstimateGas tx\<close>, \<open>SendTransaction tx gasLimit\<close>, \<open>WaitReceipt hash\<close>;
  \<^item> \<open>WarnNoChainLimits chainId\<close>, \<open>WarnNoTokenLimits tokenId chainId\<close>: the two
    \<open>console.warn\<close> lines of \<open>validateAmount\<close>;
  \<^item> \<open>DryRunEOA encoded signature recipient fromAddress\<close> and
    \<open>DryRunContract encoded mesonContractAddress report recipient encodingFromAddress amount\<close>:
    the dry-run reports of the two flows.
  The other \<open>console.log\<close> lines and the debug log only print values and are left out.
\<close>

datatype event =
    Request request
  | SignHash string
  | Deploy string
  | PopulateTransaction string int "string option" string
  | EstimateGas transaction
  | SendTransaction transaction int
  | WaitReceipt string
  | WarnNoChainLimits string
  | WarnNoTokenLimits "string option" string
  | DryRunEOA string string string string
  | DryRunContract string string transferReport string string string

text \<open>
  The environment of a run: the process environment, the JavaScript built-ins and the
  ethers and axios calls whose code is not part of the repository, each as the answer
  it gives. A library call that throws answers \<open>Inl\<close> with the failure (or \<open>None\<close>).
  \<^item> \<open>parseFloat\<close>, \<open>toBigInt\<close> (\<open>BigInt(s)\<close>);
  \<open>walletAddress key\<close> is \<open>new ethers.Wallet(key).address\<close>;
  \<open>signingKeySign hash key\<close> is the serialized \<open>wallet.signingKey.sign(hash)\<close>;
  \<^item> \<open>axios_*\<close>: what \<open>axios(config)\<close> resolves to (\<open>response.data\<close>) or throws, per
    request; axios itself throws on a connection failure, a timeout and a status outside
    2xx;
  \<^item> \<open>deploy rpcUrl mesonContractAddress key\<close>: \<open>factory.deploy\<close>, the wait for the
    deployment and \<open>getAddress\<close>;
  \<open>populate contract encodedSwap initiator amount\<close>: \<open>parseEther(amount)\<close> and
    \<open>transferToMeson.populateTransaction\<close>;
  \<open>estimateGas\<close>, \<open>sendTransaction\<close> (answers the hash), \<open>waitReceipt\<close> (answers the
    failure, if any).
\<close>

record world =
  env_PRIVATE_KEY :: "string option"
  parseFloat :: "string \<Rightarrow> number"
  toBigInt :: "string \<Rightarrow> string + int"
  walletAddress :: "string \<Rightarrow> string option"
  signingKeySign :: "string \<Rightarrow> string \<Rightarrow> string + string"
  axios_list :: "string + chain list mesonApiResponse"
  axios_limits :: "string + chainLimit list mesonApiResponse"
  axios_swap :: "encodeSwapParams \<Rightarrow> string + encodeSwapResult mesonApiResponse"
  axios_swap_encoded ::
    "string \<Rightarrow> string \<Rightarrow> string \<Rightarrow> string \<Rightarrow> string + swapResult mesonApiResponse"
  axios_swap_from_contract :: "string \<Rightarrow> string \<Rightarrow> string + swapResult mesonApiResponse"
  deploy :: "string \<Rightarrow> string \<Rightarrow> string \<Rightarrow> string + string"
  populate :: "string \<Rightarrow> int \<Rightarrow> string option \<Rightarrow> string \<Rightarrow> string + transaction"
  estimateGas :: "string \<Rightarrow> transaction \<Rightarrow> string + int"
  sendTransaction :: "string \<Rightarrow> string \<Rightarrow> transaction \<Rightarrow> int \<Rightarrow> string + string"
  waitReceipt :: "string \<Rightarrow> string \<Rightarrow> string option"

text \<open>
  An \<open>async\<close> function: the operations it performed, and the error it threw or the
  value it returned. \<open>bnd\<close> is \<open>await\<close> followed by the rest of the body: an error ends
  the run.
\<close>

type_synonym 'a io = "event list \<times> (error + 'a)"

definition ret :: "'a \<Rightarrow> 'a io" where
  "ret x = ([], Inr x)"

definition throw :: "error \<Rightarrow> 'a io" where
  "throw e = ([], Inl e)"

definition perform :: "event \<Rightarrow> error + 'a \<Rightarrow> 'a io" where
  "perform ev r = ([ev], r)"

definition bnd :: "'a io \<Rightarrow> ('a \<Rightarrow> 'b io) \<Rightarrow> 'b io" where
  "bnd m f =
     (case m of
        (t, Inl e) \<Rightarrow> (t, Inl e)
      | (t, Inr x) \<Rightarrow> (case f x of (t', r) \<Rightarrow> (t @ t', r)))"

text \<open>A synchronous function that may throw, called inside an \<open>async\<close> one.\<close>

definition lift :: "error + 'a \<Rightarrow> 'a io" where
  "lift r = ([], r)"

text \<open>The failure of a library call, thrown on as the error \<open>mk failure\<close>.\<close>

definition failing :: "(string \<Rightarrow> error) \<Rightarrow> string + 'a \<Rightarrow> error + 'a" where
  "failing mk r = (case r of Inl failure \<Rightarrow> Inl (mk failure) | Inr x \<Rightarrow> Inr x)"

subsection \<open>api.ts\<close>

text \<open>
  The five methods of \<open>MesonApiService\<close> share one body after the request: a truthy
  \<open>response.data.result\<close> is returned, else a truthy \<open>response.data.error\<close> is thrown as
  "Error <operation>: <message>", else "Invalid response format from Meson API" is
  thrown; the \<open>catch\<close> block logs and rethrows, so what axios threw is thrown on
  unchanged. A result is an array or an object, and an error an object: truthy when
  present.
\<close>

definition getSupportedChains :: "world \<Rightarrow> chain list io" where
  "getSupportedChains w =
     perform (Request GET_list)
       (case axios_list w of
          Inl failure \<Rightarrow> Inl (TransportError failure)
        | Inr response_data \<Rightarrow>
            (case result response_data of
               Some r \<Rightarrow> Inr r
             | None \<Rightarrow>
                 (case error response_data of
                    Some e \<Rightarrow> Inl (ServiceError FetchingSupportedChains (error_message e))
                  | None \<Rightarrow> Inl ProtocolError)))"

definition getSwapLimits :: "world \<Rightarrow> chainLimit list io" where
  "getSwapLimits w =
     perform (Request GET_limits)
       (case axios_limits w of
          Inl failure \<Rightarrow> Inl (TransportError failure)
        | Inr response_data \<Rightarrow>
            (case result response_data of
               Some r \<Rightarrow> Inr r
             | None \<Rightarrow>
                 (case error response_data of
                    Some e \<Rightarrow> Inl (ServiceError FetchingSwapLimits (error_message e))
                  | None \<Rightarrow> Inl ProtocolError)))"

text \<open>
  \<open>encodeSwap\<close>: the two optional fields go into the payload only when truthy.
\<close>

definition encodeSwap ::
  "world \<Rightarrow> string \<Rightarrow> string \<Rightarrow> string \<Rightarrow> string \<Rightarrow> string \<Rightarrow> bool option \<Rightarrow> string option
     \<Rightarrow> encodeSwapResult io" where
  "encodeSwap w fromChainToken toChainToken amount fromAddress recipient fromContract
       dataToContract =
     (let payload = \<lparr>par_from = fromChainToken, par_to = toChainToken, par_amount = amount,
            par_fromAddress = fromAddress, par_recipient = recipient,
            par_fromContract = (if fromContract = Some True then fromContract else None),
            par_dataToContract = (if truthy dataToContract then dataToContract else None)\<rparr>
      in perform (Request (POST_swap payload))
           (case axios_swap w payload of
              Inl failure \<Rightarrow> Inl (TransportError failure)
            | Inr response_data \<Rightarrow>
                (case result response_data of
                   Some r \<Rightarrow> Inr r
                 | None \<Rightarrow>
                     (case error response_data of
                        Some e \<Rightarrow> Inl (ServiceError EncodingSwap (error_message e))
                      | None \<Rightarrow> Inl ProtocolError))))"

definition submitSwap ::
  "world \<Rightarrow> string \<Rightarrow> string \<Rightarrow> string \<Rightarrow> string \<Rightarrow> swapResult io" where
  "submitSwap w encodedSwap fromAddress recipient signature =
     perform (Request (POST_swap_encoded encodedSwap fromAddress recipient signature))
       (case axios_swap_encoded w encodedSwap fromAddress recipient signature of
          Inl failure \<Rightarrow> Inl (TransportError failure)
        | Inr response_data \<Rightarrow>
            (case result response_data of
               Some r \<Rightarrow> Inr r
             | None \<Rightarrow>
                 (case error response_data of
                    Some e \<Rightarrow> Inl (ServiceError SubmittingSwap (error_message e))
                  | None \<Rightarrow> Inl ProtocolError)))"

definition submitSwapFromContract :: "world \<Rightarrow> string \<Rightarrow> string \<Rightarrow> swapResult io" where
  "submitSwapFromContract w encodedSwap transactionHash =
     perform (Request (POST_swap_from_contract encodedSwap transactionHash))
       (case axios_swap_from_contract w encodedSwap transactionHash of
          Inl failure \<Rightarrow> Inl (TransportError failure)
        | Inr response_data \<Rightarrow>
            (case result response_data of
               Some r \<Rightarrow> Inr r
             | None \<Rightarrow>
                 (case error response_data of
                    Some e \<Rightarrow> Inl (ServiceError SubmittingContractSwap (error_message e))
                  | None \<Rightarrow> Inl ProtocolError)))"

subsection \<open>What axios does with an answer\<close>

text \<open>
  The five methods call \<open>axios(config)\<close> with a method, a url, headers and a body only, so
  the library's default \<open>validateStatus\<close> decides: when no response arrives (connection
  refused, timeout) axios throws the network failure; a response whose status is from
  200 to 299 is returned, and \<open>response.data\<close> is its body; a response with any other
  status is thrown, as an error whose message is "Request failed with status code
  <status>" and which keeps the body on \<open>error.response\<close> only. The \<open>catch\<close> blocks of
  \<open>api.ts\<close> log that status and body in debug mode and rethrow the error as it is. The
  body is a JSON object, read as a \<open>MesonApiResponse\<close>. \<open>axios_outcome\<close> is the value
  an \<open>axios_*\<close> field of the environment has for such an answer.
\<close>

datatype 'a http_answer = NoResponse string | Response nat "'a mesonApiResponse"

fun decimal :: "nat \<Rightarrow> string" where
  "decimal n =
     (if n < 10 then [''0123456789'' ! n]
      else decimal (n div 10) @ [''0123456789'' ! (n mod 10)])"

declare decimal.simps [simp del]

definition axios_outcome :: "'a http_answer \<Rightarrow> string + 'a mesonApiResponse" where
  "axios_outcome answer =
     (case answer of
        NoResponse failure \<Rightarrow> Inl failure
      | Response status body \<Rightarrow>
          if 200 \<le> status \<and> status < 300 then Inr body
          else Inl (''Request failed with status code '' @ decimal status))"

subsection \<open>signature.ts\<close>

text \<open>\<open>signMessageHash\<close> logs and rethrows a failure; \<open>deriveAddress\<close> builds a wallet.\<close>

definition signMessageHash :: "world \<Rightarrow> string \<Rightarrow> string \<Rightarrow> string io" where
  "signMessageHash w messageHash privateKey =
     perform (SignHash messageHash) (failing SigningError (signingKeySign w messageHash privateKey))"

definition deriveAddress :: "world \<Rightarrow> string \<Rightarrow> error + string" where
  "deriveAddress w privateKey =
     (case walletAddress w privateKey of None \<Rightarrow> Inl InvalidKeyError | Some a \<Rightarrow> Inr a)"

subsection \<open>contract.ts\<close>

definition findContractAddress :: "chain list \<Rightarrow> string \<Rightarrow> string option" where
  "findContractAddress chains' chainId =
     (case find (\<lambda>c. chain_id c = chainId) chains' of
        None \<Rightarrow> None
      | Some chain \<Rightarrow> Some (chain_address chain))"

text \<open>
  The methods of \<open>MesonContractService\<close> take the RPC URL the service was built with.
  A wallet is its private key.
\<close>

definition deployTransferToMesonContract ::
  "world \<Rightarrow> string \<Rightarrow> string \<Rightarrow> string \<Rightarrow> string io" where
  "deployTransferToMesonContract w rpcUrl mesonContractAddress wallet =
     perform (Deploy mesonContractAddress)
       (failing DeployError (deploy w rpcUrl mesonContractAddress wallet))"

text \<open>
  \<open>callTransferToMeson\<close>. BigInt division truncates towards zero (\<open>sdiv\<close>).
\<close>

definition callTransferToMeson ::
  "world \<Rightarrow> string \<Rightarrow> string \<Rightarrow> encodeSwapResult \<Rightarrow> string \<Rightarrow> string \<Rightarrow> string option \<Rightarrow> bool
     \<Rightarrow> string io" where
  "callTransferToMeson w rpcUrl mesonContractAddress encodedSwap wallet amount
       transferContractAddress deployIfMissing =
     (let encodedSwapStr = res_encoded encodedSwap;
          initiator = res_initiator encodedSwap
      in
      bnd (if \<not> truthy transferContractAddress \<and> deployIfMissing
           then deployTransferToMesonContract w rpcUrl mesonContractAddress wallet
           else if \<not> truthy transferContractAddress
           then throw MissingIntermediaryContractError
           else ret (unwrap transferContractAddress))
        (\<lambda>transferToMesonAddress.
      bnd (lift (failing ContractCallError (toBigInt w encodedSwapStr)))
        (\<lambda>encodedSwapBigInt.
      bnd (perform (PopulateTransaction transferToMesonAddress encodedSwapBigInt initiator amount)
             (failing ContractCallError
                (populate w transferToMesonAddress encodedSwapBigInt initiator amount)))
        (\<lambda>tx.
      bnd (perform (EstimateGas tx) (failing ContractCallError (estimateGas w rpcUrl tx)))
        (\<lambda>gasEstimate.
      let gasLimit = gasEstimate * 12 sdiv 10 in
      bnd (perform (SendTransaction tx gasLimit)
             (failing ContractCallError (sendTransaction w rpcUrl wallet tx gasLimit)))
        (\<lambda>response_hash.
      bnd (perform (WaitReceipt response_hash)
             (case waitReceipt w rpcUrl response_hash of
                Some failure \<Rightarrow> Inl (ContractCallError failure)
              | None \<Rightarrow> Inr ()))
        (\<lambda>_. ret response_hash)))))))"

subsection \<open>index.ts\<close>

text \<open>
  \<open>validateChainToken\<close>. The token id is \<open>undefined\<close> when the caller's \<open>chain:token\<close>
  argument has no colon; \<open>t.id === undefined\<close> is then false for every token.
\<close>

definition validateChainToken ::
  "chain list \<Rightarrow> string \<Rightarrow> string option \<Rightarrow> string \<Rightarrow> error + unit" where
  "validateChainToken chains' chainId tokenId type =
     (case find (\<lambda>c. chain_id c = chainId) chains' of
        None \<Rightarrow> Inl (UnsupportedChainError type chainId)
      | Some chainInfo \<Rightarrow>
          (case find (\<lambda>t. Some (token_id t) = tokenId) (chain_tokens chainInfo) of
             None \<Rightarrow> Inl (UnsupportedTokenError type tokenId chainId)
           | Some tokenInfo \<Rightarrow> Inr ()))"

text \<open>
  \<open>validateAmount\<close>, with the \<open>parseFloat\<close> of the environment as its first argument.
  \<open>minSwap\<close> and \<open>maxSwap\<close> are the two conditional expressions of the body.
\<close>

definition minSwap :: "(string \<Rightarrow> number) \<Rightarrow> token \<Rightarrow> number" where
  "minSwap pf tokenLimit =
     (if truthy (token_min tokenLimit) then pf (unwrap (token_min tokenLimit)) else Num 0)"

definition maxSwap :: "(string \<Rightarrow> number) \<Rightarrow> token \<Rightarrow> number" where
  "maxSwap pf tokenLimit =
     (if truthy (token_max tokenLimit) then pf (unwrap (token_max tokenLimit)) else PosInfinity)"

definition validateAmount ::
  "(string \<Rightarrow> number) \<Rightarrow> chainLimit list \<Rightarrow> string \<Rightarrow> string option \<Rightarrow> number \<Rightarrow> unit io" where
  "validateAmount pf limits chainId tokenId amount =
     (case find (\<lambda>c. limit_id c = chainId) limits of
        None \<Rightarrow> perform (WarnNoChainLimits chainId) (Inr ())
      | Some chainLimit \<Rightarrow>
          (case find (\<lambda>t. Some (token_id t) = tokenId) (limit_tokens chainLimit) of
             None \<Rightarrow> perform (WarnNoTokenLimits tokenId chainId) (Inr ())
           | Some tokenLimit \<Rightarrow>
               if lt amount (minSwap pf tokenLimit) \<or> gt amount (maxSwap pf tokenLimit)
               then throw (AmountOutOfRangeError amount tokenId chainId
                             (minSwap pf tokenLimit) (maxSwap pf tokenLimit))
               else ret ()))"

text \<open>
  The bodies of \<open>runBridge\<close> and \<open>runContractBridge\<close> are given by their numbered steps,
  each step a definition named here after the comment that heads it in the source.
  Both flows start with the same statements, given once: step 1, "Get Private Key"
  (the key from the option or from \<open>PRIVATE_KEY\<close>, and the address derived from it), and
  step 2, "Fetch Chain Data and Validate" (the registry and the limits are fetched, the
  arguments parsed and validated). Step 1 answers the key and the caller's address,
  step 2 the registry and the source chain.
\<close>

definition getPrivateKey :: "world \<Rightarrow> 'a bridgeOptions_scheme \<Rightarrow> error + string \<times> string" where
  "getPrivateKey w options =
     (let privateKey = or_else (opt_privateKey options) (env_PRIVATE_KEY w) in
      if \<not> truthy privateKey then Inl MissingPrivateKeyError
      else (case deriveAddress w (unwrap privateKey) of
              Inl e \<Rightarrow> Inl e
            | Inr fromAddress \<Rightarrow> Inr (unwrap privateKey, fromAddress)))"

definition fetchAndValidate ::
  "world \<Rightarrow> 'a bridgeOptions_scheme \<Rightarrow> (chain list \<times> string) io" where
  "fetchAndValidate w options =
     bnd (getSupportedChains w) (\<lambda>supportedChains.
     bnd (getSwapLimits w) (\<lambda>swapLimits.
     case parseChainToken (opt_from options) of (fromChain, fromToken) \<Rightarrow>
     case parseChainToken (opt_to options) of (toChain, toToken) \<Rightarrow>
     let amountFloat = parseFloat w (opt_amount options) in
     bnd (lift (validateChainToken supportedChains fromChain fromToken ''source'')) (\<lambda>_.
     bnd (lift (validateChainToken supportedChains toChain toToken ''destination'')) (\<lambda>_.
     bnd (validateAmount (parseFloat w) swapLimits toChain toToken amountFloat) (\<lambda>_.
     ret (supportedChains, fromChain))))))"

text \<open>\<open>runBridge\<close>: steps 3 to 5 follow the shared start.\<close>

definition runBridge :: "world \<Rightarrow> bridgeOptions \<Rightarrow> unit io" where
  "runBridge w options =
     bnd (lift (getPrivateKey w options)) (\<lambda>(privateKey, fromAddress).
     bnd (fetchAndValidate w options) (\<lambda>_.
     bnd (encodeSwap w (opt_from options) (opt_to options) (opt_amount options) fromAddress
            (opt_recipient options) None None) (\<lambda>encodedData.
     case res_signingRequest encodedData of
       None \<Rightarrow> throw EncodeIncompleteError
     | Some signingRequest \<Rightarrow>
     if res_encoded encodedData = [] then throw EncodeIncompleteError else
     bnd (signMessageHash w (signing_hash signingRequest) privateKey) (\<lambda>signature.
     if opt_dryRun options
     then perform (DryRunEOA (res_encoded encodedData) signature (opt_recipient options)
                     fromAddress) (Inr ())
     else
     bnd (submitSwap w (res_encoded encodedData) fromAddress (opt_recipient options) signature)
       (\<lambda>swapResult. ret ())))))"

text \<open>
  Step 3 of \<open>runContractBridge\<close>, "Determine Meson contract address if not provided":
  the address from the \<open>--meson-contract\<close> option, else from the registry.
\<close>

definition resolveMesonContractAddress ::
  "string option \<Rightarrow> chain list \<Rightarrow> string \<Rightarrow> error + string" where
  "resolveMesonContractAddress mesonContractOption supportedChains fromChain =
     (if truthy mesonContractOption then Inr (unwrap mesonContractOption)
      else (let foundAddress = findContractAddress supportedChains fromChain in
            if \<not> truthy foundAddress then Inl (ContractAddressNotFoundError fromChain)
            else Inr (unwrap foundAddress)))"

text \<open>
  The block "If we need to deploy the transfer contract and don't have it yet": it
  answers \<open>fromContractAddress\<close>.
\<close>

definition deployIfNeeded ::
  "world \<Rightarrow> contractOptions \<Rightarrow> string \<Rightarrow> string \<Rightarrow> string option io" where
  "deployIfNeeded w options privateKey mesonContractAddress =
     (if \<not> truthy (opt_transferContract options) \<and> opt_deployIfMissing options
           \<and> \<not> opt_dryRun options
      then bnd (deployTransferToMesonContract w (opt_rpcUrl options) mesonContractAddress
                  privateKey) (\<lambda>deployed. ret (Some deployed))
      else ret (opt_transferContract options))"

text \<open>
  Step 4, "Encode Swap with fromContract=true": the encode request, the initiator set
  when the answer has none, the check of the encoded swap and the update of
  \<open>fromContractAddress\<close> from the answer. It answers \<open>encodingFromAddress\<close>, \<open>encodedData\<close>
  and the updated \<open>fromContractAddress\<close>.
\<close>

definition encodeContractSwap ::
  "world \<Rightarrow> contractOptions \<Rightarrow> string \<Rightarrow> string option
     \<Rightarrow> (string \<times> encodeSwapResult \<times> string option) io" where
  "encodeContractSwap w options fromAddress fromContractAddress =
     (let encodingFromAddress =
            (if truthy fromContractAddress then unwrap fromContractAddress else fromAddress);
          initiator = fromAddress
      in
      bnd (encodeSwap w (opt_from options) (opt_to options) (opt_amount options)
             encodingFromAddress (opt_recipient options) (Some True) None) (\<lambda>response_result.
      let encodedData =
            (if \<not> truthy (res_initiator response_result)
             then response_result\<lparr>res_initiator := Some initiator\<rparr> else response_result)
      in
      if res_encoded encodedData = [] then throw EncodeIncompleteError else
      ret (encodingFromAddress, encodedData,
           if truthy (res_fromContract encodedData) \<and> \<not> truthy fromContractAddress
           then res_fromContract encodedData else fromContractAddress)))"

text \<open>Step 5, "Execute Contract Call (or skip if dry run)".\<close>

definition executeContractCall ::
  "world \<Rightarrow> contractOptions \<Rightarrow> string \<Rightarrow> string \<Rightarrow> string \<Rightarrow> encodeSwapResult
     \<Rightarrow> string option \<Rightarrow> unit io" where
  "executeContractCall w options privateKey mesonContractAddress encodingFromAddress
       encodedData fromContractAddress =
     (if opt_dryRun options
      then perform
             (DryRunContract (res_encoded encodedData) mesonContractAddress
                (if truthy (opt_transferContract options)
                 then Provided (unwrap (opt_transferContract options))
                 else if opt_deployIfMissing options then WillDeploy else NotRequested)
                (opt_recipient options) encodingFromAddress (opt_amount options))
             (Inr ())
      else
      bnd (callTransferToMeson w (opt_rpcUrl options) mesonContractAddress encodedData
             privateKey (opt_amount options) fromContractAddress
             (opt_deployIfMissing options \<and> \<not> truthy fromContractAddress))
        (\<lambda>txHash. ret ()))"

text \<open>\<open>runContractBridge\<close>: its steps, in the order of the source.\<close>

definition runContractBridge :: "world \<Rightarrow> contractOptions \<Rightarrow> unit io" where
  "runContractBridge w options =
     bnd (lift (getPrivateKey w options)) (\<lambda>(privateKey, fromAddress).
     bnd (fetchAndValidate w options) (\<lambda>(supportedChains, fromChain).
     bnd (lift (resolveMesonContractAddress (opt_mesonContract options) supportedChains
                  fromChain)) (\<lambda>mesonContractAddress.
     bnd (deployIfNeeded w options privateKey mesonContractAddress) (\<lambda>fromContractAddress.
     bnd (encodeContractSwap w options fromAddress fromContractAddress)
       (\<lambda>(encodingFromAddress, encodedData, fromContractAddress').
     executeContractCall w options privateKey mesonContractAddress encodingFromAddress
       encodedData fromContractAddress')))))"

subsection \<open>Kinds of operations\<close>



subsection \<open>A sample environment\<close>

text \<open>
  Concrete data on which the theorems below are instantiated. \<open>parseFloat_digits\<close> agrees
  with \<open>parseFloat\<close> on the strings used here: a string of decimal digits has its value,
  and a string that starts with a letter other than \<open>I\<close> is NaN.
\<close>

definition digit :: "char \<Rightarrow> bool" where
  "digit c = (48 \<le> (of_char c :: nat) \<and> (of_char c :: nat) \<le> 57)"

definition parseFloat_digits :: "string \<Rightarrow> number" where
  "parseFloat_digits s =
     (if s \<noteq> [] \<and> list_all digit s
      then Num (of_nat (foldl (\<lambda>n c. 10 * n + (of_char c - 48)) 0 s))
      else NaN)"

definition sample_eth :: token where
  "sample_eth = \<lparr>token_id = ''eth'', token_addr = None, token_min = None, token_max = None\<rparr>"

definition sample_usdc :: token where
  "sample_usdc =
     \<lparr>token_id = ''usdc'', token_addr = Some ''0xC'', token_min = Some ''1'',
      token_max = Some ''100''\<rparr>"

definition sample_chains :: "chain list" where
  "sample_chains =
     [\<lparr>chain_id = ''base'', chain_name = ''Base'', chain_chainId = ''0x2105'',
       chain_address = ''0xAAA'', chain_destinationChainOnly = None,
       chain_tokens = [sample_eth, sample_usdc]\<rparr>,
      \<lparr>chain_id = ''blast'', chain_name = ''Blast'', chain_chainId = ''0x13e31'',
       chain_address = ''0xBBB'', chain_destinationChainOnly = Some True,
       chain_tokens = [sample_eth, sample_usdc]\<rparr>]"

definition sample_limits :: "chainLimit list" where
  "sample_limits =
     [\<lparr>limit_id = ''blast'', limit_name = ''Blast'', limit_tokens = [sample_usdc]\<rparr>]"

definition sample_result :: encodeSwapResult where
  "sample_result =
     \<lparr>res_encoded = ''0x1'', res_fromAddress = None, res_fromContract = None,
      res_recipient = ''0xR'',
      res_fee = \<lparr>serviceFee = ''0'', lpFee = ''0'', totalFee = ''0''\<rparr>,
      res_converted = None,
      res_signingRequest = Some \<lparr>signing_message = ''m'', signing_hash = ''0x123''\<rparr>,
      res_initiator = None\<rparr>"

definition sample_world :: world where
  "sample_world =
     \<lparr>env_PRIVATE_KEY = Some ''key'',
      parseFloat = parseFloat_digits,
      toBigInt = (\<lambda>s. if s = ''0x1'' then Inr 1 else Inl ''SyntaxError''),
      walletAddress = (\<lambda>k. if k = ''key'' then Some ''0xME'' else None),
      signingKeySign = (\<lambda>h k. Inr ''sig''),
      axios_list = Inr \<lparr>result = Some sample_chains, error = None\<rparr>,
      axios_limits = Inr \<lparr>result = Some sample_limits, error = None\<rparr>,
      axios_swap = (\<lambda>p. Inr \<lparr>result = Some sample_result, error = None\<rparr>),
      axios_swap_encoded = (\<lambda>e f r s. Inr \<lparr>result = Some \<lparr>swapId = ''sw1''\<rparr>, error = None\<rparr>),
      axios_swap_from_contract = (\<lambda>e h. Inr \<lparr>result = Some \<lparr>swapId = ''sw1''\<rparr>, error = None\<rparr>),
      deploy = (\<lambda>u m k. Inr ''0xT''),
      populate = (\<lambda>c n i a. Inr \<lparr>tx_to = c, tx_data = ''d'', tx_value = 0\<rparr>),
      estimateGas = (\<lambda>u t. Inr 100001),
      sendTransaction = (\<lambda>u k t g. Inr ''0xH''),
      waitReceipt = (\<lambda>u h. None)\<rparr>"

definition sample_failing_world :: world where
  "sample_failing_world =
     sample_world\<lparr>
       axios_list := Inr \<lparr>result = None,
         error = Some \<lparr>error_code = 400, error_message = ''bad request'',
                   error_data = None\<rparr>\<rparr>,
       axios_limits := Inl ''ECONNREFUSED'',
       axios_swap := (\<lambda>p. Inr \<lparr>result = None, error = None\<rparr>)\<rparr>"

definition sample_options :: bridgeOptions where
  "sample_options =
     \<lparr>opt_from = ''base:eth'', opt_to = ''blast:usdc'', opt_amount = ''10'',
      opt_recipient = ''0xR'', opt_privateKey = None, opt_dryRun = False, opt_debug = False\<rparr>"

definition sample_contract_options :: contractOptions where
  "sample_contract_options =
     \<lparr>opt_from = ''base:eth'', opt_to = ''blast:usdc'', opt_amount = ''10'',
      opt_recipient = ''0xR'', opt_privateKey = None, opt_dryRun = False, opt_debug = False,
      opt_mesonContract = None, opt_transferContract = None, opt_deployIfMissing = False,
      opt_rpcUrl = ''http://rpc''\<rparr>"

section \<open>Properties\<close>

subsection \<open>Auxiliary facts\<close>

lemma lt_irrefl: "\<not> lt a a"
  by (cases a) auto

lemma lt_NaN_right: "\<not> lt a NaN"
  by (cases a) auto

lemma lt_PosInfinity_left: "\<not> lt PosInfinity a"
  by (cases a) auto

lemma find_SomeD: "find P xs = Some x \<Longrightarrow> P x \<and> x \<in> set xs"
  by (induction xs) (auto split: if_splits)

lemma find_map_key: "find P (map g xs) = map_option g (find (\<lambda>x. P (g x)) xs)"
  by (induction xs) auto

lemma find_distinct_key:
  "distinct (map f xs) \<Longrightarrow> x \<in> set xs \<Longrightarrow> find (\<lambda>y. f y = f x) xs = Some x"
  by (induction xs) (auto simp: image_iff)

lemma parseFloat_digits_10: "parseFloat_digits ''10'' = Num 10"
  by (simp add: parseFloat_digits_def digit_def)

lemma parseFloat_digits_abc: "parseFloat_digits ''abc'' = NaN"
  by (simp add: parseFloat_digits_def digit_def)

lemma fst_bnd: "fst (bnd m f) = fst m @ (case snd m of Inl e \<Rightarrow> [] | Inr x \<Rightarrow> fst (f x))"
  by (simp add: bnd_def split: prod.splits sum.splits)

lemma snd_bnd: "snd (bnd m f) = (case snd m of Inl e \<Rightarrow> Inl e | Inr x \<Rightarrow> snd (f x))"
  by (simp add: bnd_def split: prod.splits sum.splits)

lemma io_simps:
  "fst (ret x) = []" "snd (ret x) = Inr x"
  "fst (throw e) = []" "snd (throw e) = Inl e"
  "fst (perform ev r) = [ev]" "snd (perform ev r) = r"
  "fst (lift r) = []" "snd (lift r) = r"
  by (simp_all add: ret_def throw_def perform_def lift_def)

lemma in_fst_bnd:
  "ev \<in> set (fst (bnd m f)) \<longleftrightarrow>
     ev \<in> set (fst m) \<or> (\<exists>x. snd m = Inr x \<and> ev \<in> set (fst (f x)))"
  by (cases m) (auto simp: bnd_def split: sum.splits prod.splits)

lemma bnd_Inr: "bnd (t, Inr x) f = (t @ fst (f x), snd (f x))"
  by (simp add: bnd_def split: prod.splits)

lemma bnd_Inl: "bnd (t, Inl e) f = (t, Inl e)"
  by (simp add: bnd_def)

lemma failing_Inr: "failing mk r = Inr x \<longleftrightarrow> r = Inr x"
  by (simp add: failing_def split: sum.splits)

lemmas io_defs = bnd_def ret_def throw_def perform_def lift_def failing_def Let_def

lemmas sample_defs =
  sample_world_def sample_options_def sample_contract_options_def sample_chains_def
  sample_limits_def sample_result_def sample_eth_def sample_usdc_def
  parseFloat_digits_def digit_def

lemmas contract_defs =
  runContractBridge_def deployIfNeeded_def encodeContractSwap_def executeContractCall_def

lemmas flow_defs =
  runBridge_def contract_defs resolveMesonContractAddress_def findContractAddress_def
  encodeSwap_def submitSwap_def signMessageHash_def callTransferToMeson_def
  deployTransferToMesonContract_def

lemmas start_defs =
  getPrivateKey_def fetchAndValidate_def deriveAddress_def getSupportedChains_def
  getSwapLimits_def parseChainToken_def validateChainToken_def validateAmount_def
  minSwap_def maxSwap_def gt_def or_else_def unwrap_def

subsection \<open>The validators\<close>

lemma validateChainToken_chain:
  "(validateChainToken cs c t r = Inl (UnsupportedChainError r c)) =
     (\<forall>ch \<in> set cs. chain_id ch \<noteq> c)"
  by (auto simp: validateChainToken_def find_None_iff split: option.splits dest: find_SomeD)

lemma validateChainToken_token:
  "(validateChainToken cs c t r = Inl (UnsupportedTokenError r t c)) =
     (\<exists>ch. find (\<lambda>x. chain_id x = c) cs = Some ch
        \<and> (\<forall>tk \<in> set (chain_tokens ch). Some (token_id tk) \<noteq> t))"
  by (auto simp: validateChainToken_def find_None_iff split: option.splits dest: find_SomeD)

lemma validateChainToken_ok:
  "(validateChainToken cs c t r = Inr ()) =
     (\<exists>ch. find (\<lambda>x. chain_id x = c) cs = Some ch
        \<and> (\<exists>tk \<in> set (chain_tokens ch). Some (token_id tk) = t))"
  by (auto simp: validateChainToken_def find_None_iff split: option.splits dest: find_SomeD)

lemma validateChainToken_errors:
  "validateChainToken cs c t r = Inl e \<Longrightarrow>
     e = UnsupportedChainError r c \<or> e = UnsupportedTokenError r t c"
  by (auto simp: validateChainToken_def split: option.splits)

lemma validateChainToken_token_distinct:
  assumes "distinct (map chain_id cs)"
  shows "(validateChainToken cs c t r = Inl (UnsupportedTokenError r t c)) =
     (\<exists>ch \<in> set cs. chain_id ch = c \<and> (\<forall>tk \<in> set (chain_tokens ch). Some (token_id tk) \<noteq> t))"
proof -
  have "find (\<lambda>x. chain_id x = c) cs = Some ch \<longleftrightarrow> ch \<in> set cs \<and> chain_id ch = c" for ch
    using find_distinct_key [OF assms, of ch] find_SomeD [of "\<lambda>x. chain_id x = c" cs ch]
    by auto
  then show ?thesis
    by (simp only: validateChainToken_token) blast
qed

text \<open>
  C5. \<open>validateChainToken\<close> raises \<open>UnsupportedChainError\<close> exactly when no Chain of the
  snapshot has the chain id; it raises \<open>UnsupportedTokenError\<close> exactly when the Chain
  with that id (the first one, if the snapshot repeats an id) has no token with the
  token id, and succeeds exactly when it has one; it raises nothing else, and being a
  pure function it has no side effect. The role is carried into the error and decides
  none of the three outcomes.
\<close>

theorem validateChainToken_outcomes:
  "((validateChainToken cs c t r = Inl (UnsupportedChainError r c)) =
       (\<forall>ch \<in> set cs. chain_id ch \<noteq> c))
   \<and> ((validateChainToken cs c t r = Inl (UnsupportedTokenError r t c)) =
       (\<exists>ch. find (\<lambda>x. chain_id x = c) cs = Some ch
          \<and> (\<forall>tk \<in> set (chain_tokens ch). Some (token_id tk) \<noteq> t)))
   \<and> (distinct (map chain_id cs) \<longrightarrow>
        (validateChainToken cs c t r = Inl (UnsupportedTokenError r t c)) =
        (\<exists>ch \<in> set cs. chain_id ch = c
           \<and> (\<forall>tk \<in> set (chain_tokens ch). Some (token_id tk) \<noteq> t)))
   \<and> ((validateChainToken cs c t r = Inr ()) =
       (\<exists>ch. find (\<lambda>x. chain_id x = c) cs = Some ch
          \<and> (\<exists>tk \<in> set (chain_tokens ch). Some (token_id tk) = t)))
   \<and> (\<forall>e. validateChainToken cs c t r = Inl e \<longrightarrow>
          e = UnsupportedChainError r c \<or> e = UnsupportedTokenError r t c)
   \<and> ((validateChainToken cs c t r = Inl (UnsupportedChainError r c)) =
       (validateChainToken cs c t r' = Inl (UnsupportedChainError r' c)))
   \<and> ((validateChainToken cs c t r = Inl (UnsupportedTokenError r t c)) =
       (validateChainToken cs c t r' = Inl (UnsupportedTokenError r' t c)))
   \<and> ((validateChainToken cs c t r = Inr ()) = (validateChainToken cs c t r' = Inr ()))"
proof (intro conjI impI allI)
  show "(validateChainToken cs c t r = Inl (UnsupportedChainError r c)) =
          (\<forall>ch \<in> set cs. chain_id ch \<noteq> c)"
    by (rule validateChainToken_chain)
  show "(validateChainToken cs c t r = Inl (UnsupportedTokenError r t c)) =
          (\<exists>ch. find (\<lambda>x. chain_id x = c) cs = Some ch
             \<and> (\<forall>tk \<in> set (chain_tokens ch). Some (token_id tk) \<noteq> t))"
    by (rule validateChainToken_token)
  show "(validateChainToken cs c t r = Inl (UnsupportedTokenError r t c)) =
          (\<exists>ch \<in> set cs. chain_id ch = c
             \<and> (\<forall>tk \<in> set (chain_tokens ch). Some (token_id tk) \<noteq> t))"
    if "distinct (map chain_id cs)"
    using that by (rule validateChainToken_token_distinct)
  show "(validateChainToken cs c t r = Inr ()) =
          (\<exists>ch. find (\<lambda>x. chain_id x = c) cs = Some ch
             \<and> (\<exists>tk \<in> set (chain_tokens ch). Some (token_id tk) = t))"
    by (rule validateChainToken_ok)
  show "e = UnsupportedChainError r c \<or> e = UnsupportedTokenError r t c"
    if "validateChainToken cs c t r = Inl e" for e
    using that by (rule validateChainToken_errors)
  show "(validateChainToken cs c t r = Inl (UnsupportedChainError r c)) =
          (validateChainToken cs c t r' = Inl (UnsupportedChainError r' c))"
    by (simp only: validateChainToken_chain)
  show "(validateChainToken cs c t r = Inl (UnsupportedTokenError r t c)) =
          (validateChainToken cs c t r' = Inl (UnsupportedTokenError r' t c))"
    by (simp only: validateChainToken_token)
  show "(validateChainToken cs c t r = Inr ()) = (validateChainToken cs c t r' = Inr ())"
    by (simp only: validateChainToken_ok)
qed

theorem validateChainToken_outcomes_witness:
  "distinct (map chain_id sample_chains)
   \<and> validateChainToken sample_chains ''base'' (Some ''usdc'') ''source'' = Inr ()
   \<and> validateChainToken sample_chains ''base'' (Some ''usdc'') ''destination'' = Inr ()
   \<and> validateChainToken sample_chains ''eth'' (Some ''usdc'') ''source''
       = Inl (UnsupportedChainError ''source'' ''eth'')
   \<and> validateChainToken sample_chains ''base'' (Some ''dai'') ''source''
       = Inl (UnsupportedTokenError ''source'' (Some ''dai'') ''base'')
   \<and> validateChainToken sample_chains ''base'' None ''source''
       = Inl (UnsupportedTokenError ''source'' None ''base'')"
  using validateChainToken_outcomes [of sample_chains "''base''" "Some ''usdc''" "''source''"
      "''destination''"]
    validateChainToken_outcomes [of sample_chains "''eth''" "Some ''usdc''" "''source''"
      "''source''"]
    validateChainToken_outcomes [of sample_chains "''base''" "Some ''dai''" "''source''"
      "''source''"]
    validateChainToken_outcomes [of sample_chains "''base''" None "''source''" "''source''"]
  by (simp add: validateChainToken_def sample_chains_def sample_eth_def sample_usdc_def)

text \<open>
  C9. \<open>validateChainToken\<close> never reads \<open>destinationChainOnly\<close>: setting the flag of
  every Chain of the snapshot to any value changes no outcome. So a chain marked
  destination-only is accepted with the role \<open>source\<close> whenever it is the Chain found
  for the chain id and has the token.
\<close>

theorem validateChainToken_ignores_destinationChainOnly:
  "validateChainToken (map (\<lambda>ch. ch\<lparr>chain_destinationChainOnly := flag ch\<rparr>) cs) c t r
     = validateChainToken cs c t r
   \<and> (find (\<lambda>x. chain_id x = c) cs = Some ch
        \<and> chain_destinationChainOnly ch = Some True
        \<and> (\<exists>tk \<in> set (chain_tokens ch). Some (token_id tk) = t)
      \<longrightarrow> validateChainToken cs c t ''source'' = Inr ())"
proof (intro conjI impI)
  show "validateChainToken (map (\<lambda>ch. ch\<lparr>chain_destinationChainOnly := flag ch\<rparr>) cs) c t r
          = validateChainToken cs c t r"
    by (simp add: validateChainToken_def find_map_key split: option.splits)
  show "validateChainToken cs c t ''source'' = Inr ()"
    if "find (\<lambda>x. chain_id x = c) cs = Some ch
        \<and> chain_destinationChainOnly ch = Some True
        \<and> (\<exists>tk \<in> set (chain_tokens ch). Some (token_id tk) = t)"
    using that by (simp only: validateChainToken_ok) blast
qed

theorem validateChainToken_ignores_destinationChainOnly_witness:
  "find (\<lambda>x. chain_id x = ''blast'') sample_chains = Some (sample_chains ! 1)
   \<and> chain_destinationChainOnly (sample_chains ! 1) = Some True
   \<and> (\<exists>tk \<in> set (chain_tokens (sample_chains ! 1)). Some (token_id tk) = Some ''eth'')
   \<and> validateChainToken sample_chains ''blast'' (Some ''eth'') ''source'' = Inr ()"
proof -
  have h: "find (\<lambda>x. chain_id x = ''blast'') sample_chains = Some (sample_chains ! 1)
      \<and> chain_destinationChainOnly (sample_chains ! 1) = Some True
      \<and> (\<exists>tk \<in> set (chain_tokens (sample_chains ! 1)). Some (token_id tk) = Some ''eth'')"
    by (simp add: sample_chains_def sample_eth_def sample_usdc_def)
  from validateChainToken_ignores_destinationChainOnly
    [of _ sample_chains "''blast''" "Some ''eth''" _ "sample_chains ! 1", THEN conjunct2] h
  show ?thesis by blast
qed

subsection \<open>The amount check\<close>

lemma validateAmount_no_chain:
  "\<forall>cl \<in> set limits. limit_id cl \<noteq> c \<Longrightarrow>
     validateAmount pf limits c t a = ([WarnNoChainLimits c], Inr ())"
  by (auto simp: validateAmount_def perform_def find_None_iff split: option.splits
      dest: find_SomeD)

lemma validateAmount_no_token:
  "find (\<lambda>x. limit_id x = c) limits = Some cl \<Longrightarrow>
   \<forall>tk \<in> set (limit_tokens cl). Some (token_id tk) \<noteq> t \<Longrightarrow>
     validateAmount pf limits c t a = ([WarnNoTokenLimits t c], Inr ())"
  by (auto simp: validateAmount_def perform_def find_None_iff split: option.splits
      dest: find_SomeD)

lemma validateAmount_entry:
  "find (\<lambda>x. limit_id x = c) limits = Some cl \<Longrightarrow>
   find (\<lambda>tk. Some (token_id tk) = t) (limit_tokens cl) = Some entry \<Longrightarrow>
     validateAmount pf limits c t a =
       ([], if lt a (minSwap pf entry) \<or> gt a (maxSwap pf entry)
            then Inl (AmountOutOfRangeError a t c (minSwap pf entry) (maxSwap pf entry))
            else Inr ())"
  by (simp add: validateAmount_def throw_def ret_def)

text \<open>
  C4. Without a ChainLimit for the chain id, or without an entry for the token id in
  the ChainLimit found, \<open>validateAmount\<close> raises nothing and emits one warning. With an
  entry it emits nothing and raises \<open>AmountOutOfRangeError\<close> exactly when
  \<open>amount < minSwap\<close> or \<open>amount > maxSwap\<close>, where \<open>minSwap\<close> is 0 when \<open>min\<close> is absent (or
  the empty string) and the parsed \<open>min\<close> otherwise, and \<open>maxSwap\<close> is \<open>Infinity\<close>, above
  which no amount is, when \<open>max\<close> is absent (or the empty string) and the parsed \<open>max\<close>
  otherwise. An amount equal to a bound does not fail the test against that bound.
\<close>

theorem validateAmount_outcomes:
  "((\<forall>x \<in> set limits. limit_id x \<noteq> c) \<longrightarrow>
       validateAmount pf limits c t a = ([WarnNoChainLimits c], Inr ()))
   \<and> (find (\<lambda>x. limit_id x = c) limits = Some cl
        \<and> (\<forall>tk \<in> set (limit_tokens cl). Some (token_id tk) \<noteq> t) \<longrightarrow>
       validateAmount pf limits c t a = ([WarnNoTokenLimits t c], Inr ()))
   \<and> (find (\<lambda>x. limit_id x = c) limits = Some cl
        \<and> find (\<lambda>tk. Some (token_id tk) = t) (limit_tokens cl) = Some entry \<longrightarrow>
       fst (validateAmount pf limits c t a) = []
       \<and> ((snd (validateAmount pf limits c t a)
             = Inl (AmountOutOfRangeError a t c (minSwap pf entry) (maxSwap pf entry)))
            = (lt a (minSwap pf entry) \<or> gt a (maxSwap pf entry)))
       \<and> ((snd (validateAmount pf limits c t a) = Inr ())
            = (\<not> lt a (minSwap pf entry) \<and> \<not> gt a (maxSwap pf entry)))
       \<and> (a = minSwap pf entry \<and> \<not> gt a (maxSwap pf entry) \<longrightarrow>
            snd (validateAmount pf limits c t a) = Inr ())
       \<and> (a = maxSwap pf entry \<and> \<not> lt a (minSwap pf entry) \<longrightarrow>
            snd (validateAmount pf limits c t a) = Inr ()))
   \<and> (token_min entry = None \<or> token_min entry = Some [] \<longrightarrow> minSwap pf entry = Num 0)
   \<and> (token_max entry = None \<or> token_max entry = Some [] \<longrightarrow> maxSwap pf entry = PosInfinity)
   \<and> (token_min entry = Some s \<and> s \<noteq> [] \<longrightarrow> minSwap pf entry = pf s)
   \<and> (token_max entry = Some s \<and> s \<noteq> [] \<longrightarrow> maxSwap pf entry = pf s)
   \<and> \<not> gt a PosInfinity"
proof (intro conjI impI)
  show "validateAmount pf limits c t a = ([WarnNoChainLimits c], Inr ())"
    if "\<forall>x \<in> set limits. limit_id x \<noteq> c"
    using that by (rule validateAmount_no_chain)
  show "validateAmount pf limits c t a = ([WarnNoTokenLimits t c], Inr ())"
    if "find (\<lambda>x. limit_id x = c) limits = Some cl
        \<and> (\<forall>tk \<in> set (limit_tokens cl). Some (token_id tk) \<noteq> t)"
    using that validateAmount_no_token by blast
  show "minSwap pf entry = Num 0" if "token_min entry = None \<or> token_min entry = Some []"
    using that by (auto simp: minSwap_def)
  show "maxSwap pf entry = PosInfinity" if "token_max entry = None \<or> token_max entry = Some []"
    using that by (auto simp: maxSwap_def)
  show "minSwap pf entry = pf s" if "token_min entry = Some s \<and> s \<noteq> []"
    using that by (simp add: minSwap_def unwrap_def)
  show "maxSwap pf entry = pf s" if "token_max entry = Some s \<and> s \<noteq> []"
    using that by (simp add: maxSwap_def unwrap_def)
  show "\<not> gt a PosInfinity"
    by (simp add: gt_def lt_PosInfinity_left)
next
  assume found: "find (\<lambda>x. limit_id x = c) limits = Some cl
      \<and> find (\<lambda>tk. Some (token_id tk) = t) (limit_tokens cl) = Some entry"
  then have eq: "validateAmount pf limits c t a =
       ([], if lt a (minSwap pf entry) \<or> gt a (maxSwap pf entry)
            then Inl (AmountOutOfRangeError a t c (minSwap pf entry) (maxSwap pf entry))
            else Inr ())"
    using validateAmount_entry by blast
  show "fst (validateAmount pf limits c t a) = []"
    by (simp add: eq)
  show "(snd (validateAmount pf limits c t a)
           = Inl (AmountOutOfRangeError a t c (minSwap pf entry) (maxSwap pf entry)))
        = (lt a (minSwap pf entry) \<or> gt a (maxSwap pf entry))"
    by (simp add: eq)
  show "(snd (validateAmount pf limits c t a) = Inr ())
        = (\<not> lt a (minSwap pf entry) \<and> \<not> gt a (maxSwap pf entry))"
    by (simp add: eq)
  show "snd (validateAmount pf limits c t a) = Inr ()"
    if "a = minSwap pf entry \<and> \<not> gt a (maxSwap pf entry)"
  proof -
    from that have "\<not> lt a (minSwap pf entry)" "\<not> gt a (maxSwap pf entry)"
      using lt_irrefl [of a] by auto
    then show ?thesis by (simp add: eq)
  qed
  show "snd (validateAmount pf limits c t a) = Inr ()"
    if "a = maxSwap pf entry \<and> \<not> lt a (minSwap pf entry)"
  proof -
    from that have "\<not> lt a (minSwap pf entry)" "\<not> gt a (maxSwap pf entry)"
      using lt_irrefl [of a] by (auto simp: gt_def)
    then show ?thesis by (simp add: eq)
  qed
qed

theorem validateAmount_outcomes_witness:
  "validateAmount parseFloat_digits sample_limits ''base'' (Some ''usdc'') (Num 5)
     = ([WarnNoChainLimits ''base''], Inr ())
   \<and> validateAmount parseFloat_digits sample_limits ''blast'' (Some ''eth'') (Num 5)
     = ([WarnNoTokenLimits (Some ''eth'') ''blast''], Inr ())
   \<and> find (\<lambda>x. limit_id x = ''blast'') sample_limits = Some (sample_limits ! 0)
   \<and> find (\<lambda>tk. Some (token_id tk) = Some ''usdc'') (limit_tokens (sample_limits ! 0))
       = Some sample_usdc
   \<and> minSwap parseFloat_digits sample_usdc = Num 1
   \<and> maxSwap parseFloat_digits sample_usdc = Num 100
   \<and> validateAmount parseFloat_digits sample_limits ''blast'' (Some ''usdc'') (Num 1)
       = ([], Inr ())
   \<and> validateAmount parseFloat_digits sample_limits ''blast'' (Some ''usdc'') (Num 100)
       = ([], Inr ())
   \<and> validateAmount parseFloat_digits sample_limits ''blast'' (Some ''usdc'') (Num 101)
       = ([], Inl (AmountOutOfRangeError (Num 101) (Some ''usdc'') ''blast'' (Num 1) (Num 100)))
   \<and> validateAmount parseFloat_digits sample_limits ''blast'' (Some ''usdc'') (Num (1 / 2))
       = ([], Inl (AmountOutOfRangeError (Num (1 / 2)) (Some ''usdc'') ''blast'' (Num 1)
                (Num 100)))"
  using validateAmount_outcomes [where limits = sample_limits and c = "''base''"
      and pf = parseFloat_digits and t = "Some ''usdc''" and a = "Num 5"]
    validateAmount_outcomes [where limits = sample_limits and c = "''blast''"
      and pf = parseFloat_digits and t = "Some ''eth''" and a = "Num 5"
      and cl = "sample_limits ! 0"]
    validateAmount_outcomes [where limits = sample_limits and c = "''blast''"
      and pf = parseFloat_digits and t = "Some ''usdc''" and a = "Num 1"
      and cl = "sample_limits ! 0" and entry = sample_usdc and s = "''1''"]
  by (simp add: validateAmount_def minSwap_def maxSwap_def unwrap_def gt_def perform_def
      throw_def ret_def sample_limits_def sample_usdc_def parseFloat_digits_def digit_def)

lemma validateAmount_NaN_ok: "snd (validateAmount pf limits c t NaN) = Inr ()"
  by (simp add: validateAmount_def perform_def throw_def ret_def gt_def lt_NaN_right
      split: option.splits)

lemma getSupportedChains_errors:
  "snd (getSupportedChains w) = Inl e \<Longrightarrow>
     (\<exists>f. e = TransportError f) \<or> (\<exists>m. e = ServiceError FetchingSupportedChains m)
       \<or> e = ProtocolError"
  by (auto simp: getSupportedChains_def perform_def split: sum.splits option.splits)

lemma getSwapLimits_errors:
  "snd (getSwapLimits w) = Inl e \<Longrightarrow>
     (\<exists>f. e = TransportError f) \<or> (\<exists>m. e = ServiceError FetchingSwapLimits m)
       \<or> e = ProtocolError"
  by (auto simp: getSwapLimits_def perform_def split: sum.splits option.splits)

lemma fetchAndValidate_NaN:
  assumes "parseFloat w (opt_amount options) = NaN"
  shows "snd (fetchAndValidate w options) \<noteq> Inl (AmountOutOfRangeError a t c mn mx)"
  using assms
  by (auto simp: fetchAndValidate_def snd_bnd io_simps validateAmount_NaN_ok
      split: sum.splits prod.splits
      dest!: getSupportedChains_errors getSwapLimits_errors validateChainToken_errors)

text \<open>
  C10. \<open>validateAmount\<close> raises nothing when the amount is NaN, whatever the limits
  snapshot holds: neither comparison is true of NaN. Both flows validate
  \<open>parseFloat(amount)\<close>, so their validation step never raises \<open>AmountOutOfRangeError\<close> for
  an amount string that parses to NaN.
\<close>

theorem validateAmount_NaN:
  "snd (validateAmount pf limits c t NaN) = Inr ()
   \<and> (parseFloat w (opt_amount options) = NaN \<longrightarrow>
        snd (fetchAndValidate w options) \<noteq> Inl (AmountOutOfRangeError a t' c' mn mx))"
  using validateAmount_NaN_ok fetchAndValidate_NaN by blast

theorem validateAmount_NaN_witness:
  "parseFloat sample_world (opt_amount (sample_options\<lparr>opt_amount := ''abc''\<rparr>)) = NaN
   \<and> find (\<lambda>x. limit_id x = ''blast'') sample_limits = Some (sample_limits ! 0)
   \<and> find (\<lambda>tk. Some (token_id tk) = Some ''usdc'') (limit_tokens (sample_limits ! 0))
       = Some sample_usdc
   \<and> snd (validateAmount (parseFloat sample_world) sample_limits ''blast'' (Some ''usdc'') NaN)
       = Inr ()
   \<and> fetchAndValidate sample_world (sample_options\<lparr>opt_amount := ''abc''\<rparr>)
       = ([Request GET_list, Request GET_limits], Inr (sample_chains, ''base''))"
  using validateAmount_NaN [where pf = "parseFloat sample_world" and limits = sample_limits
      and c = "''blast''" and t = "Some ''usdc''" and w = sample_world
      and options = "sample_options\<lparr>opt_amount := ''abc''\<rparr>"]
  by (simp add: start_defs io_defs sample_defs)

subsection \<open>The operations of a run\<close>

lemma fst_getSupportedChains: "fst (getSupportedChains w) = [Request GET_list]"
  by (simp add: getSupportedChains_def perform_def)

lemma fst_getSwapLimits: "fst (getSwapLimits w) = [Request GET_limits]"
  by (simp add: getSwapLimits_def perform_def)

lemma fst_validateAmount:
  "ev \<in> set (fst (validateAmount pf limits c t a)) \<Longrightarrow>
     ev = WarnNoChainLimits c \<or> ev = WarnNoTokenLimits t c"
  by (auto simp: validateAmount_def perform_def throw_def ret_def
      split: option.splits if_splits)

lemma fst_fetchAndValidate:
  "ev \<in> set (fst (fetchAndValidate w options)) \<Longrightarrow>
     ev = Request GET_list \<or> ev = Request GET_limits
       \<or> (\<exists>c. ev = WarnNoChainLimits c) \<or> (\<exists>t c. ev = WarnNoTokenLimits t c)"
  by (auto simp: fetchAndValidate_def fst_bnd io_simps fst_getSupportedChains
      fst_getSwapLimits case_prod_beta split: sum.splits dest: fst_validateAmount)


lemma fst_encodeSwap_eq:
  "fst (encodeSwap w f t a fa r fc d) =
     [Request (POST_swap \<lparr>par_from = f, par_to = t, par_amount = a, par_fromAddress = fa,
        par_recipient = r, par_fromContract = (if fc = Some True then fc else None),
        par_dataToContract = (if truthy d then d else None)\<rparr>)]"
  by (simp add: encodeSwap_def perform_def Let_def)


subsection \<open>Dry run\<close>





subsection \<open>The relayer's answers\<close>

lemma envelope_chains:
  "(fst (getSupportedChains w) = [Request GET_list]
     \<and> (\<forall>failure. axios_list w = Inl failure \<longrightarrow>
           snd (getSupportedChains w) = Inl (TransportError failure))
     \<and> (\<forall>d r. axios_list w = Inr d \<and> result d = Some r \<longrightarrow>
           snd (getSupportedChains w) = Inr r)
     \<and> (\<forall>d e. axios_list w = Inr d \<and> result d = None \<and> error d = Some e \<longrightarrow>
           snd (getSupportedChains w) = Inl (ServiceError FetchingSupportedChains (error_message e)))
     \<and> (\<forall>d. axios_list w = Inr d \<and> result d = None \<and> error d = None \<longrightarrow>
           snd (getSupportedChains w) = Inl ProtocolError))"
  by (simp add: getSupportedChains_def perform_def)

lemma envelope_limits:
  "(fst (getSwapLimits w) = [Request GET_limits]
     \<and> (\<forall>failure. axios_limits w = Inl failure \<longrightarrow>
           snd (getSwapLimits w) = Inl (TransportError failure))
     \<and> (\<forall>d r. axios_limits w = Inr d \<and> result d = Some r \<longrightarrow>
           snd (getSwapLimits w) = Inr r)
     \<and> (\<forall>d e. axios_limits w = Inr d \<and> result d = None \<and> error d = Some e \<longrightarrow>
           snd (getSwapLimits w) = Inl (ServiceError FetchingSwapLimits (error_message e)))
     \<and> (\<forall>d. axios_limits w = Inr d \<and> result d = None \<and> error d = None \<longrightarrow>
           snd (getSwapLimits w) = Inl ProtocolError))"
  by (simp add: getSwapLimits_def perform_def)

lemma envelope_encode:
  "(fst (encodeSwap w f t a fa rc fc dc) = [Request (POST_swap 
           \<lparr>par_from = f, par_to = t, par_amount = a, par_fromAddress = fa,
            par_recipient = rc, par_fromContract = (if fc = Some True then fc else None),
            par_dataToContract = (if truthy dc then dc else None)\<rparr>)]
     \<and> (\<forall>failure. axios_swap w 
           \<lparr>par_from = f, par_to = t, par_amount = a, par_fromAddress = fa,
            par_recipient = rc, par_fromContract = (if fc = Some True then fc else None),
            par_dataToContract = (if truthy dc then dc else None)\<rparr> = Inl failure \<longrightarrow>
           snd (encodeSwap w f t a fa rc fc dc) = Inl (TransportError failure))
     \<and> (\<forall>d r. axios_swap w 
           \<lparr>par_from = f, par_to = t, par_amount = a, par_fromAddress = fa,
            par_recipient = rc, par_fromContract = (if fc = Some True then fc else None),
            par_dataToContract = (if truthy dc then dc else None)\<rparr> = Inr d \<and> result d = Some r \<longrightarrow>
           snd (encodeSwap w f t a fa rc fc dc) = Inr r)
     \<and> (\<forall>d e. axios_swap w 
           \<lparr>par_from = f, par_to = t, par_amount = a, par_fromAddress = fa,
            par_recipient = rc, par_fromContract = (if fc = Some True then fc else None),
            par_dataToContract = (if truthy dc then dc else None)\<rparr> = Inr d \<and> result d = None \<and> error d = Some e \<longrightarrow>
           snd (encodeSwap w f t a fa rc fc dc) = Inl (ServiceError EncodingSwap (error_message e)))
     \<and> (\<forall>d. axios_swap w 
           \<lparr>par_from = f, par_to = t, par_amount = a, par_fromAddress = fa,
            par_recipient = rc, par_fromContract = (if fc = Some True then fc else None),
            par_dataToContract = (if truthy dc then dc else None)\<rparr> = Inr d \<and> result d = None \<and> error d = None \<longrightarrow>
           snd (encodeSwap w f t a fa rc fc dc) = Inl ProtocolError))"
  by (simp add: encodeSwap_def Let_def perform_def)

lemma envelope_submit:
  "(fst (submitSwap w enc fa rc sg) = [Request (POST_swap_encoded enc fa rc sg)]
     \<and> (\<forall>failure. axios_swap_encoded w enc fa rc sg = Inl failure \<longrightarrow>
           snd (submitSwap w enc fa rc sg) = Inl (TransportError failure))
     \<and> (\<forall>d r. axios_swap_encoded w enc fa rc sg = Inr d \<and> result d = Some r \<longrightarrow>
           snd (submitSwap w enc fa rc sg) = Inr r)
     \<and> (\<forall>d e. axios_swap_encoded w enc fa rc sg = Inr d \<and> result d = None \<and> error d = Some e \<longrightarrow>
           snd (submitSwap w enc fa rc sg) = Inl (ServiceError SubmittingSwap (error_message e)))
     \<and> (\<forall>d. axios_swap_encoded w enc fa rc sg = Inr d \<and> result d = None \<and> error d = None \<longrightarrow>
           snd (submitSwap w enc fa rc sg) = Inl ProtocolError))"
  by (simp add: submitSwap_def perform_def)

lemma envelope_from_contract:
  "(fst (submitSwapFromContract w enc h) = [Request (POST_swap_from_contract enc h)]
     \<and> (\<forall>failure. axios_swap_from_contract w enc h = Inl failure \<longrightarrow>
           snd (submitSwapFromContract w enc h) = Inl (TransportError failure))
     \<and> (\<forall>d r. axios_swap_from_contract w enc h = Inr d \<and> result d = Some r \<longrightarrow>
           snd (submitSwapFromContract w enc h) = Inr r)
     \<and> (\<forall>d e. axios_swap_from_contract w enc h = Inr d \<and> result d = None \<and> error d = Some e \<longrightarrow>
           snd (submitSwapFromContract w enc h) = Inl (ServiceError SubmittingContractSwap (error_message e)))
     \<and> (\<forall>d. axios_swap_from_contract w enc h = Inr d \<and> result d = None \<and> error d = None \<longrightarrow>
           snd (submitSwapFromContract w enc h) = Inl ProtocolError))"
  by (simp add: submitSwapFromContract_def perform_def)

lemma axios_outcome_settled:
  "((\<forall>failure. axios_outcome (NoResponse failure) = Inl failure)
     \<and> (\<forall>status body. 200 \<le> status \<and> status < 300 \<longrightarrow>
           axios_outcome (Response status body) = Inr body)
     \<and> (\<forall>status body. \<not> (200 \<le> status \<and> status < 300) \<longrightarrow>
           axios_outcome (Response status body)
             = Inl (''Request failed with status code '' @ decimal status)))"
  by (simp add: axios_outcome_def)

lemma status_chains:
  "(\<forall>status body. \<not> (200 \<le> status \<and> status < 300)
       \<and> axios_list w = axios_outcome (Response status body) \<longrightarrow>
     snd (getSupportedChains w)
       = Inl (TransportError (''Request failed with status code '' @ decimal status)))"
  by (simp add: getSupportedChains_def perform_def axios_outcome_def)

lemma status_limits:
  "(\<forall>status body. \<not> (200 \<le> status \<and> status < 300)
       \<and> axios_limits w = axios_outcome (Response status body) \<longrightarrow>
     snd (getSwapLimits w)
       = Inl (TransportError (''Request failed with status code '' @ decimal status)))"
  by (simp add: getSwapLimits_def perform_def axios_outcome_def)

lemma status_encode:
  "(\<forall>status body. \<not> (200 \<le> status \<and> status < 300)
       \<and> axios_swap w
           \<lparr>par_from = f, par_to = t, par_amount = a, par_fromAddress = fa,
            par_recipient = rc, par_fromContract = (if fc = Some True then fc else None),
            par_dataToContract = (if truthy dc then dc else None)\<rparr>
          = axios_outcome (Response status body) \<longrightarrow>
     snd (encodeSwap w f t a fa rc fc dc)
       = Inl (TransportError (''Request failed with status code '' @ decimal status)))"
  by (simp add: encodeSwap_def Let_def perform_def axios_outcome_def)

lemma status_submit:
  "(\<forall>status body. \<not> (200 \<le> status \<and> status < 300)
       \<and> axios_swap_encoded w enc fa rc sg = axios_outcome (Response status body) \<longrightarrow>
     snd (submitSwap w enc fa rc sg)
       = Inl (TransportError (''Request failed with status code '' @ decimal status)))"
  by (simp add: submitSwap_def perform_def axios_outcome_def)

lemma status_from_contract:
  "(\<forall>status body. \<not> (200 \<le> status \<and> status < 300)
       \<and> axios_swap_from_contract w enc h = axios_outcome (Response status body) \<longrightarrow>
     snd (submitSwapFromContract w enc h)
       = Inl (TransportError (''Request failed with status code '' @ decimal status)))"
  by (simp add: submitSwapFromContract_def perform_def axios_outcome_def)

text \<open>
  C7. Each of the five relayer operations (registry, limits, encode, the two
  submissions) sends exactly one request, and then: what axios threw is thrown on,
  wrapped as such (\<open>TransportError\<close>); a response that axios returns and that carries a
  result yields that result unchanged; one with no result and an error fails with
  \<open>ServiceError\<close>, carrying the relayer's message; one with neither fails with
  \<open>ProtocolError\<close>. (A response that carries both a result and an error counts as a
  success: the result is tested first.) Axios throws when there is no response, and
  returns the body of a response whose status is from 200 to 299; a response with any
  other status is thrown too, so the operation then fails with \<open>TransportError\<close> and the
  status in its message, whatever the body says, an error envelope included.
\<close>

theorem relayer_response_handling:
  "(fst (getSupportedChains w) = [Request GET_list]
     \<and> (\<forall>failure. axios_list w = Inl failure \<longrightarrow>
           snd (getSupportedChains w) = Inl (TransportError failure))
     \<and> (\<forall>d r. axios_list w = Inr d \<and> result d = Some r \<longrightarrow>
           snd (getSupportedChains w) = Inr r)
     \<and> (\<forall>d e. axios_list w = Inr d \<and> result d = None \<and> error d = Some e \<longrightarrow>
           snd (getSupportedChains w) = Inl (ServiceError FetchingSupportedChains (error_message e)))
     \<and> (\<forall>d. axios_list w = Inr d \<and> result d = None \<and> error d = None \<longrightarrow>
           snd (getSupportedChains w) = Inl ProtocolError))
   \<and> (fst (getSwapLimits w) = [Request GET_limits]
     \<and> (\<forall>failure. axios_limits w = Inl failure \<longrightarrow>
           snd (getSwapLimits w) = Inl (TransportError failure))
     \<and> (\<forall>d r. axios_limits w = Inr d \<and> result d = Some r \<longrightarrow>
           snd (getSwapLimits w) = Inr r)
     \<and> (\<forall>d e. axios_limits w = Inr d \<and> result d = None \<and> error d = Some e \<longrightarrow>
           snd (getSwapLimits w) = Inl (ServiceError FetchingSwapLimits (error_message e)))
     \<and> (\<forall>d. axios_limits w = Inr d \<and> result d = None \<and> error d = None \<longrightarrow>
           snd (getSwapLimits w) = Inl ProtocolError))
   \<and> (fst (encodeSwap w f t a fa rc fc dc) = [Request (POST_swap 
           \<lparr>par_from = f, par_to = t, par_amount = a, par_fromAddress = fa,
            par_recipient = rc, par_fromContract = (if fc = Some True then fc else None),
            par_dataToContract = (if truthy dc then dc else None)\<rparr>)]
     \<and> (\<forall>failure. axios_swap w 
           \<lparr>par_from = f, par_to = t, par_amount = a, par_fromAddress = fa,
            par_recipient = rc, par_fromContract = (if fc = Some True then fc else None),
            par_dataToContract = (if truthy dc then dc else None)\<rparr> = Inl failure \<longrightarrow>
           snd (encodeSwap w f t a fa rc fc dc) = Inl (TransportError failure))
     \<and> (\<forall>d r. axios_swap w 
           \<lparr>par_from = f, par_to = t, par_amount = a, par_fromAddress = fa,
            par_recipient = rc, par_fromContract = (if fc = Some True then fc else None),
            par_dataToContract = (if truthy dc then dc else None)\<rparr> = Inr d \<and> result d = Some r \<longrightarrow>
           snd (encodeSwap w f t a fa rc fc dc) = Inr r)
     \<and> (\<forall>d e. axios_swap w 
           \<lparr>par_from = f, par_to = t, par_amount = a, par_fromAddress = fa,
            par_recipient = rc, par_fromContract = (if fc = Some True then fc else None),
            par_dataToContract = (if truthy dc then dc else None)\<rparr> = Inr d \<and> result d = None \<and> error d = Some e \<longrightarrow>
           snd (encodeSwap w f t a fa rc fc dc) = Inl (ServiceError EncodingSwap (error_message e)))
     \<and> (\<forall>d. axios_swap w 
           \<lparr>par_from = f, par_to = t, par_amount = a, par_fromAddress = fa,
            par_recipient = rc, par_fromContract = (if fc = Some True then fc else None),
            par_dataToContract = (if truthy dc then dc else None)\<rparr> = Inr d \<and> result d = None \<and> error d = None \<longrightarrow>
           snd (encodeSwap w f t a fa rc fc dc) = Inl ProtocolError))
   \<and> (fst (submitSwap w enc fa rc sg) = [Request (POST_swap_encoded enc fa rc sg)]
     \<and> (\<forall>failure. axios_swap_encoded w enc fa rc sg = Inl failure \<longrightarrow>
           snd (submitSwap w enc fa rc sg) = Inl (TransportError failure))
     \<and> (\<forall>d r. axios_swap_encoded w enc fa rc sg = Inr d \<and> result d = Some r \<longrightarrow>
           snd (submitSwap w enc fa rc sg) = Inr r)
     \<and> (\<forall>d e. axios_swap_encoded w enc fa rc sg = Inr d \<and> result d = None \<and> error d = Some e \<longrightarrow>
           snd (submitSwap w enc fa rc sg) = Inl (ServiceError SubmittingSwap (error_message e)))
     \<and> (\<forall>d. axios_swap_encoded w enc fa rc sg = Inr d \<and> result d = None \<and> error d = None \<longrightarrow>
           snd (submitSwap w enc fa rc sg) = Inl ProtocolError))
   \<and> (fst (submitSwapFromContract w enc h) = [Request (POST_swap_from_contract enc h)]
     \<and> (\<forall>failure. axios_swap_from_contract w enc h = Inl failure \<longrightarrow>
           snd (submitSwapFromContract w enc h) = Inl (TransportError failure))
     \<and> (\<forall>d r. axios_swap_from_contract w enc h = Inr d \<and> result d = Some r \<longrightarrow>
           snd (submitSwapFromContract w enc h) = Inr r)
     \<and> (\<forall>d e. axios_swap_from_contract w enc h = Inr d \<and> result d = None \<and> error d = Some e \<longrightarrow>
           snd (submitSwapFromContract w enc h) = Inl (ServiceError SubmittingContractSwap (error_message e)))
     \<and> (\<forall>d. axios_swap_from_contract w enc h = Inr d \<and> result d = None \<and> error d = None \<longrightarrow>
           snd (submitSwapFromContract w enc h) = Inl ProtocolError))
   \<and> ((\<forall>failure. axios_outcome (NoResponse failure) = Inl failure)
     \<and> (\<forall>status body. 200 \<le> status \<and> status < 300 \<longrightarrow>
           axios_outcome (Response status body) = Inr body)
     \<and> (\<forall>status body. \<not> (200 \<le> status \<and> status < 300) \<longrightarrow>
           axios_outcome (Response status body)
             = Inl (''Request failed with status code '' @ decimal status)))
   \<and> (\<forall>status body. \<not> (200 \<le> status \<and> status < 300)
       \<and> axios_list w = axios_outcome (Response status body) \<longrightarrow>
     snd (getSupportedChains w)
       = Inl (TransportError (''Request failed with status code '' @ decimal status)))
   \<and> (\<forall>status body. \<not> (200 \<le> status \<and> status < 300)
       \<and> axios_limits w = axios_outcome (Response status body) \<longrightarrow>
     snd (getSwapLimits w)
       = Inl (TransportError (''Request failed with status code '' @ decimal status)))
   \<and> (\<forall>status body. \<not> (200 \<le> status \<and> status < 300)
       \<and> axios_swap w
           \<lparr>par_from = f, par_to = t, par_amount = a, par_fromAddress = fa,
            par_recipient = rc, par_fromContract = (if fc = Some True then fc else None),
            par_dataToContract = (if truthy dc then dc else None)\<rparr>
          = axios_outcome (Response status body) \<longrightarrow>
     snd (encodeSwap w f t a fa rc fc dc)
       = Inl (TransportError (''Request failed with status code '' @ decimal status)))
   \<and> (\<forall>status body. \<not> (200 \<le> status \<and> status < 300)
       \<and> axios_swap_encoded w enc fa rc sg = axios_outcome (Response status body) \<longrightarrow>
     snd (submitSwap w enc fa rc sg)
       = Inl (TransportError (''Request failed with status code '' @ decimal status)))
   \<and> (\<forall>status body. \<not> (200 \<le> status \<and> status < 300)
       \<and> axios_swap_from_contract w enc h = axios_outcome (Response status body) \<longrightarrow>
     snd (submitSwapFromContract w enc h)
       = Inl (TransportError (''Request failed with status code '' @ decimal status)))"
  by (rule conjI [OF envelope_chains conjI [OF envelope_limits conjI [OF envelope_encode
        conjI [OF envelope_submit conjI [OF envelope_from_contract
        conjI [OF axios_outcome_settled conjI [OF status_chains conjI [OF status_limits
        conjI [OF status_encode conjI [OF status_submit status_from_contract]]]]]]]]]])

theorem relayer_response_handling_witness:
  "getSupportedChains sample_world = ([Request GET_list], Inr sample_chains)
   \<and> submitSwap sample_world ''0x1'' ''0xME'' ''0xR'' ''sig''
       = ([Request (POST_swap_encoded ''0x1'' ''0xME'' ''0xR'' ''sig'')],
          Inr \<lparr>swapId = ''sw1''\<rparr>)
   \<and> snd (getSupportedChains sample_failing_world)
       = Inl (ServiceError FetchingSupportedChains ''bad request'')
   \<and> snd (getSwapLimits sample_failing_world) = Inl (TransportError ''ECONNREFUSED'')
   \<and> snd (encodeSwap sample_failing_world ''base:eth'' ''blast:usdc'' ''10'' ''0xME'' ''0xR''
             None None)
       = Inl ProtocolError
   \<and> snd (getSwapLimits
            (sample_world\<lparr>axios_limits :=
               axios_outcome (Response 503 \<lparr>result = None, error = None\<rparr>)\<rparr>))
       = Inl (TransportError ''Request failed with status code 503'')"
  using relayer_response_handling [where w = sample_world and enc = "''0x1''"
      and fa = "''0xME''" and rc = "''0xR''" and sg = "''sig''"]
    relayer_response_handling [where w = sample_failing_world and f = "''base:eth''"
      and t = "''blast:usdc''" and a = "''10''" and fa = "''0xME''" and rc = "''0xR''"
      and fc = None and dc = None]
    relayer_response_handling [where
      w = "sample_world\<lparr>axios_limits :=
             axios_outcome (Response 503 \<lparr>result = None, error = None\<rparr>)\<rparr>"]
  by (simp add: getSupportedChains_def getSwapLimits_def encodeSwap_def submitSwap_def
      perform_def sample_world_def sample_failing_world_def axios_outcome_def
      decimal.simps [of 503] decimal.simps [of 50] decimal.simps [of 5])

text \<open>
  C7 as stated fails: the relayer answers the registry request with the status 400 and
  an error envelope whose message is "bad request"; the operation fails with what axios
  threw, "Request failed with status code 400", not with a \<open>ServiceError\<close> that carries
  the relayer's message.
\<close>

theorem relayer_response_handling_counterexample:
  "snd (getSupportedChains
          (sample_world\<lparr>axios_list := axios_outcome
             (Response 400 \<lparr>result = None,
                error = Some \<lparr>error_code = 400, error_message = ''bad request'',
                          error_data = None\<rparr>\<rparr>)\<rparr>))
     = Inl (TransportError ''Request failed with status code 400'')
   \<and> snd (getSupportedChains
          (sample_world\<lparr>axios_list := axios_outcome
             (Response 400 \<lparr>result = None,
                error = Some \<lparr>error_code = 400, error_message = ''bad request'',
                          error_data = None\<rparr>\<rparr>)\<rparr>))
     \<noteq> Inl (ServiceError FetchingSupportedChains ''bad request'')"
  by (simp add: getSupportedChains_def perform_def axios_outcome_def sample_world_def
      decimal.simps [of 400] decimal.simps [of 40] decimal.simps [of 4])

subsection \<open>The contract call\<close>

lemma callTransferToMeson_send:
  "SendTransaction tx g \<in> set (fst (callTransferToMeson w url m enc k amt tca dep)) \<Longrightarrow>
     \<exists>E. estimateGas w url tx = Inr E \<and> g = E * 12 sdiv 10"
  by (auto simp: callTransferToMeson_def deployTransferToMesonContract_def in_fst_bnd io_simps
      Let_def failing_Inr split: if_splits)

lemma runContractBridge_events:
  "ev \<in> set (fst (runContractBridge w options)) \<Longrightarrow>
     ev \<in> set (fst (fetchAndValidate w options))
     \<or> (\<exists>m. ev = Deploy m)
     \<or> (\<exists>p. ev = Request (POST_swap p))
     \<or> (\<exists>e m t r a x. ev = DryRunContract e m t r a x)
     \<or> (\<exists>m enc k tca dep.
           ev \<in> set (fst (callTransferToMeson w (opt_rpcUrl options) m enc k
                             (opt_amount options) tca dep)))"
  unfolding contract_defs
  apply (simp add: in_fst_bnd io_simps Let_def case_prod_beta deployTransferToMesonContract_def
      fst_encodeSwap_eq split: if_splits)
     apply blast+
  done

lemma runContractBridge_send:
  assumes "SendTransaction tx g \<in> set (fst (runContractBridge w options))"
  shows "\<exists>E. estimateGas w (opt_rpcUrl options) tx = Inr E \<and> g = E * 12 sdiv 10"
  using runContractBridge_events [OF assms]
  by (auto dest: fst_fetchAndValidate callTransferToMeson_send)

lemma gasLimit_floor:
  assumes "0 \<le> (E::int)"
  shows "E * 12 sdiv 10 = \<lfloor>(of_int E * 12 / 10 :: real)\<rfloor>"
proof -
  have "(of_int E * 12 / 10 :: real) = of_int (E * 12) / of_int 10"
    by simp
  then have "\<lfloor>(of_int E * 12 / 10 :: real)\<rfloor> = E * 12 div 10"
    by (simp only: floor_divide_of_int_eq)
  with assms show ?thesis
    by (simp add: signed_divide_int_def sgn_if)
qed

subsection \<open>The Meson contract address\<close>

lemma callTransferToMeson_deploy:
  "Deploy x \<in> set (fst (callTransferToMeson w url m enc k amt tca dep)) \<Longrightarrow> x = m"
  by (auto simp: callTransferToMeson_def deployTransferToMesonContract_def in_fst_bnd io_simps
      Let_def failing_Inr split: if_splits)

lemma callTransferToMeson_no_report:
  "DryRunContract e m' r x y z \<notin> set (fst (callTransferToMeson w url m enc k amt tca dep))"
  by (auto simp: callTransferToMeson_def deployTransferToMesonContract_def in_fst_bnd io_simps
      Let_def failing_Inr split: if_splits)

lemma resolve_override:
  "truthy opt \<Longrightarrow> resolveMesonContractAddress opt cs fromChain = Inr (unwrap opt)"
  by (simp add: resolveMesonContractAddress_def)

lemma resolve_registry:
  "\<not> truthy opt \<Longrightarrow> find (\<lambda>c. chain_id c = fromChain) cs = Some ch \<Longrightarrow> chain_address ch \<noteq> [] \<Longrightarrow>
     resolveMesonContractAddress opt cs fromChain = Inr (chain_address ch)"
  by (simp add: resolveMesonContractAddress_def findContractAddress_def unwrap_def)

lemma resolve_none:
  "\<not> truthy opt \<Longrightarrow> \<forall>ch \<in> set cs. chain_id ch = fromChain \<longrightarrow> chain_address ch = [] \<Longrightarrow>
     resolveMesonContractAddress opt cs fromChain = Inl (ContractAddressNotFoundError fromChain)"
  by (auto simp: resolveMesonContractAddress_def findContractAddress_def
      split: option.splits dest: find_SomeD)

lemma runContractBridge_unresolved:
  "getPrivateKey w options = Inr (k, a) \<Longrightarrow>
   fetchAndValidate w options = (t, Inr (cs, fromChain)) \<Longrightarrow>
   resolveMesonContractAddress (opt_mesonContract options) cs fromChain = Inl e \<Longrightarrow>
     runContractBridge w options = (t, Inl e)"
  by (simp add: contract_defs lift_def bnd_Inr bnd_Inl)

lemma fetchAndValidate_events:
  "fetchAndValidate w options = (t, r) \<Longrightarrow> ev \<in> set t \<Longrightarrow>
     ev = Request GET_list \<or> ev = Request GET_limits
       \<or> (\<exists>c. ev = WarnNoChainLimits c) \<or> (\<exists>t c. ev = WarnNoTokenLimits t c)"
  using fst_fetchAndValidate [of ev w options] by simp

lemma runContractBridge_resolved:
  "getPrivateKey w options = Inr (k, a) \<Longrightarrow>
   fetchAndValidate w options = (t, Inr (cs, fromChain)) \<Longrightarrow>
   resolveMesonContractAddress (opt_mesonContract options) cs fromChain = Inr m \<Longrightarrow>
   ev \<in> set (fst (runContractBridge w options)) \<Longrightarrow>
     (\<forall>x. ev = Deploy x \<longrightarrow> x = m) \<and> (\<forall>e m' r x y z. ev = DryRunContract e m' r x y z \<longrightarrow> m' = m)"
  apply (simp add: contract_defs lift_def bnd_Inr bnd_Inl in_fst_bnd io_simps Let_def
      deployTransferToMesonContract_def fst_encodeSwap_eq case_prod_beta split: if_splits)
  apply (auto dest: fetchAndValidate_events callTransferToMeson_deploy
      simp: callTransferToMeson_no_report)
  done


text \<open>
  C8. The Meson contract address of the contract flow: a non-empty
  \<open>--meson-contract\<close> override is used; without one, the non-empty address of the
  registry entry found for the source chain is used; without an override, and with no
  entry for the source chain that has an address, the step fails with
  \<open>ContractAddressNotFoundError\<close>. In a run that has validated its inputs, that failure
  ends the run before any further operation, and otherwise the resolved address is the
  constructor argument of every deployment and the address of the dry-run report.
\<close>

theorem mesonContractAddress_resolution:
  "(truthy (opt_mesonContract options) \<longrightarrow>
      resolveMesonContractAddress (opt_mesonContract options) cs fromChain
        = Inr (unwrap (opt_mesonContract options)))
   \<and> (\<not> truthy (opt_mesonContract options)
        \<and> find (\<lambda>c. chain_id c = fromChain) cs = Some ch \<and> chain_address ch \<noteq> [] \<longrightarrow>
      resolveMesonContractAddress (opt_mesonContract options) cs fromChain
        = Inr (chain_address ch))
   \<and> (\<not> truthy (opt_mesonContract options)
        \<and> (\<forall>c \<in> set cs. chain_id c = fromChain \<longrightarrow> chain_address c = []) \<longrightarrow>
      resolveMesonContractAddress (opt_mesonContract options) cs fromChain
        = Inl (ContractAddressNotFoundError fromChain))
   \<and> (getPrivateKey w options = Inr (k, a)
        \<and> fetchAndValidate w options = (t, Inr (cs, fromChain)) \<longrightarrow>
      (\<forall>e. resolveMesonContractAddress (opt_mesonContract options) cs fromChain = Inl e \<longrightarrow>
           runContractBridge w options = (t, Inl e))
      \<and> (\<forall>m. resolveMesonContractAddress (opt_mesonContract options) cs fromChain = Inr m \<longrightarrow>
           (\<forall>ev \<in> set (fst (runContractBridge w options)).
              (\<forall>x. ev = Deploy x \<longrightarrow> x = m)
              \<and> (\<forall>e m' r x y z. ev = DryRunContract e m' r x y z \<longrightarrow> m' = m))))"
proof (intro conjI impI allI ballI)
  show "resolveMesonContractAddress (opt_mesonContract options) cs fromChain
          = Inr (unwrap (opt_mesonContract options))"
    if "truthy (opt_mesonContract options)"
    using that by (rule resolve_override)
  show "resolveMesonContractAddress (opt_mesonContract options) cs fromChain
          = Inr (chain_address ch)"
    if "\<not> truthy (opt_mesonContract options)
        \<and> find (\<lambda>c. chain_id c = fromChain) cs = Some ch \<and> chain_address ch \<noteq> []"
    using that by (simp add: resolve_registry)
  show "resolveMesonContractAddress (opt_mesonContract options) cs fromChain
          = Inl (ContractAddressNotFoundError fromChain)"
    if "\<not> truthy (opt_mesonContract options)
        \<and> (\<forall>c \<in> set cs. chain_id c = fromChain \<longrightarrow> chain_address c = [])"
    using that by (simp add: resolve_none)
next
  fix e
  assume "getPrivateKey w options = Inr (k, a)
      \<and> fetchAndValidate w options = (t, Inr (cs, fromChain))"
    and "resolveMesonContractAddress (opt_mesonContract options) cs fromChain = Inl e"
  then show "runContractBridge w options = (t, Inl e)"
    by (simp add: runContractBridge_unresolved)
next
  fix m ev x
  assume "getPrivateKey w options = Inr (k, a)
      \<and> fetchAndValidate w options = (t, Inr (cs, fromChain))"
    and "resolveMesonContractAddress (opt_mesonContract options) cs fromChain = Inr m"
    and "ev \<in> set (fst (runContractBridge w options))" and "ev = Deploy x"
  then show "x = m"
    using runContractBridge_resolved [of w options k a t cs fromChain m ev] by blast
next
  fix m ev e m' r x y z
  assume "getPrivateKey w options = Inr (k, a)
      \<and> fetchAndValidate w options = (t, Inr (cs, fromChain))"
    and "resolveMesonContractAddress (opt_mesonContract options) cs fromChain = Inr m"
    and "ev \<in> set (fst (runContractBridge w options))"
    and "ev = DryRunContract e m' r x y z"
  then show "m' = m"
    using runContractBridge_resolved [of w options k a t cs fromChain m ev] by blast
qed

theorem mesonContractAddress_resolution_witness:
  "getPrivateKey sample_world sample_contract_options = Inr (''key'', ''0xME'')
   \<and> fetchAndValidate sample_world sample_contract_options
       = ([Request GET_list, Request GET_limits], Inr (sample_chains, ''base''))
   \<and> resolveMesonContractAddress (Some ''0xMC'') sample_chains ''base'' = Inr ''0xMC''
   \<and> resolveMesonContractAddress None sample_chains ''base'' = Inr ''0xAAA''
   \<and> resolveMesonContractAddress None (map (\<lambda>c. c\<lparr>chain_address := []\<rparr>) sample_chains)
         ''base''
       = Inl (ContractAddressNotFoundError ''base'')
   \<and> runContractBridge
         (sample_world\<lparr>axios_list :=
            Inr \<lparr>result = Some (map (\<lambda>c. c\<lparr>chain_address := []\<rparr>) sample_chains),
                 error = None\<rparr>\<rparr>)
         sample_contract_options
       = ([Request GET_list, Request GET_limits], Inl (ContractAddressNotFoundError ''base''))
   \<and> Deploy ''0xAAA''
       \<in> set (fst (runContractBridge sample_world
                    (sample_contract_options\<lparr>opt_deployIfMissing := True\<rparr>)))
   \<and> Deploy ''0xMC''
       \<in> set (fst (runContractBridge sample_world
                    (sample_contract_options\<lparr>opt_deployIfMissing := True,
                       opt_mesonContract := Some ''0xMC''\<rparr>)))"
  using mesonContractAddress_resolution [where options = sample_contract_options
      and cs = sample_chains and fromChain = "''base''" and w = sample_world
      and k = "''key''" and a = "''0xME''" and t = "[Request GET_list, Request GET_limits]"
      and ch = "sample_chains ! 0"]
  by (simp add: flow_defs start_defs io_defs sample_defs signed_divide_int_def)


subsection \<open>The steps of the contract flow\<close>

lemma snd_encodeSwap_Inr:
  "snd (encodeSwap w f t a fa r fc d) = Inr x \<longleftrightarrow>
     (case axios_swap w \<lparr>par_from = f, par_to = t, par_amount = a, par_fromAddress = fa,
        par_recipient = r, par_fromContract = (if fc = Some True then fc else None),
        par_dataToContract = (if truthy d then d else None)\<rparr> of
        Inl failure \<Rightarrow> False
      | Inr resp \<Rightarrow> result resp = Some x)"
proof (cases "axios_swap w \<lparr>par_from = f, par_to = t, par_amount = a, par_fromAddress = fa,
        par_recipient = r, par_fromContract = (if fc = Some True then fc else None),
        par_dataToContract = (if truthy d then d else None)\<rparr>")
  case (Inl failure)
  then show ?thesis by (simp add: encodeSwap_def Let_def perform_def)
next
  case (Inr resp)
  then show ?thesis
    by (cases "result resp"; cases "error resp") (simp_all add: encodeSwap_def Let_def perform_def)
qed

lemma callTransferToMeson_no_request:
  "Request q \<notin> set (fst (callTransferToMeson w url m enc k amt tca dep))"
  by (auto simp: callTransferToMeson_def deployTransferToMesonContract_def in_fst_bnd io_simps
      Let_def failing_Inr split: if_splits)

lemma callTransferToMeson_populate:
  "PopulateTransaction c n ini x \<in> set (fst (callTransferToMeson w url m enc k amt tca dep))
     \<Longrightarrow> ini = res_initiator enc"
  by (auto simp: callTransferToMeson_def deployTransferToMesonContract_def in_fst_bnd io_simps
      Let_def failing_Inr split: if_splits)

lemma fst_deployIfNeeded:
  "ev \<in> set (fst (deployIfNeeded w options k m)) \<Longrightarrow> ev = Deploy m"
  by (auto simp: deployIfNeeded_def deployTransferToMesonContract_def in_fst_bnd io_simps
      split: if_splits)

lemma snd_deployIfNeeded:
  "snd (deployIfNeeded w options k m) = Inr fca \<Longrightarrow>
     (if \<not> truthy (opt_transferContract options) \<and> opt_deployIfMissing options
           \<and> \<not> opt_dryRun options
      then \<exists>d. deploy w (opt_rpcUrl options) m k = Inr d \<and> fca = Some d
      else fca = opt_transferContract options)"
  by (auto simp: deployIfNeeded_def deployTransferToMesonContract_def snd_bnd io_simps
      failing_def split: if_splits sum.splits)

lemma fst_encodeContractSwap:
  "fst (encodeContractSwap w options a fca) =
     [Request (POST_swap \<lparr>par_from = opt_from options, par_to = opt_to options,
        par_amount = opt_amount options,
        par_fromAddress = (if truthy fca then unwrap fca else a),
        par_recipient = opt_recipient options, par_fromContract = Some True,
        par_dataToContract = None\<rparr>)]"
  by (simp add: encodeContractSwap_def fst_bnd fst_encodeSwap_eq io_simps Let_def
      split: sum.splits)

lemma snd_encodeContractSwap:
  assumes "snd (encodeContractSwap w options a fca) = Inr (efa, enc, fca')"
  shows "efa = (if truthy fca then unwrap fca else a)
     \<and> (case axios_swap w \<lparr>par_from = opt_from options, par_to = opt_to options,
            par_amount = opt_amount options, par_fromAddress = efa,
            par_recipient = opt_recipient options, par_fromContract = Some True,
            par_dataToContract = None\<rparr> of
          Inl failure \<Rightarrow> False
        | Inr resp \<Rightarrow>
            (case result resp of
               None \<Rightarrow> False
             | Some r \<Rightarrow>
                 res_encoded r \<noteq> []
                 \<and> enc = (if truthy (res_initiator r) then r else r\<lparr>res_initiator := Some a\<rparr>)
                 \<and> fca' = (if truthy (res_fromContract r) \<and> \<not> truthy fca
                            then res_fromContract r else fca)))"
proof -
  define fa where "fa = (if truthy fca then unwrap fca else a)"
  define e where "e = encodeSwap w (opt_from options) (opt_to options) (opt_amount options) fa
      (opt_recipient options) (Some True) None"
  have eq: "snd (encodeContractSwap w options a fca) =
      (case snd e of
         Inl err \<Rightarrow> Inl err
       | Inr r \<Rightarrow>
           if res_encoded r = [] then Inl EncodeIncompleteError
           else Inr (fa, (if truthy (res_initiator r) then r else r\<lparr>res_initiator := Some a\<rparr>),
                  (if truthy (res_fromContract r) \<and> \<not> truthy fca then res_fromContract r
                   else fca)))"
    unfolding encodeContractSwap_def Let_def fa_def [symmetric] e_def [symmetric]
    by (simp add: snd_bnd io_simps split: sum.splits)
  show ?thesis
  proof (cases "snd e")
    case (Inl err)
    with assms eq show ?thesis by simp
  next
    case (Inr r)
    with assms eq have ne: "res_encoded r \<noteq> []"
      by (auto split: if_splits)
    with assms eq Inr have vals: "efa = fa"
      "enc = (if truthy (res_initiator r) then r else r\<lparr>res_initiator := Some a\<rparr>)"
      "fca' = (if truthy (res_fromContract r) \<and> \<not> truthy fca then res_fromContract r else fca)"
      by simp_all
    define P where "P = \<lparr>par_from = opt_from options, par_to = opt_to options,
            par_amount = opt_amount options, par_fromAddress = fa,
            par_recipient = opt_recipient options, par_fromContract = Some True,
            par_dataToContract = None\<rparr>"
    from Inr have "case axios_swap w P of
          Inl failure \<Rightarrow> False | Inr resp \<Rightarrow> result resp = Some r"
      unfolding e_def snd_encodeSwap_Inr P_def by simp
    then obtain resp where resp: "axios_swap w P = Inr resp" "result resp = Some r"
      by (cases "axios_swap w P") auto
    have "efa = (if truthy fca then unwrap fca else a)"
      using vals(1) fa_def by simp
    moreover have "case axios_swap w \<lparr>par_from = opt_from options, par_to = opt_to options,
            par_amount = opt_amount options, par_fromAddress = efa,
            par_recipient = opt_recipient options, par_fromContract = Some True,
            par_dataToContract = None\<rparr> of
          Inl failure \<Rightarrow> False
        | Inr resp \<Rightarrow>
            (case result resp of
               None \<Rightarrow> False
             | Some r \<Rightarrow>
                 res_encoded r \<noteq> []
                 \<and> enc = (if truthy (res_initiator r) then r else r\<lparr>res_initiator := Some a\<rparr>)
                 \<and> fca' = (if truthy (res_fromContract r) \<and> \<not> truthy fca
                            then res_fromContract r else fca))"
      using resp ne vals(2,3) unfolding vals(1) P_def by simp
    ultimately show ?thesis by blast
  qed
qed

lemma fst_executeContractCall_request:
  "Request q \<notin> set (fst (executeContractCall w options k m efa enc fca))"
  by (simp add: executeContractCall_def in_fst_bnd io_simps callTransferToMeson_no_request)

lemma fst_executeContractCall_populate:
  "PopulateTransaction c n ini x \<in> set (fst (executeContractCall w options k m efa enc fca))
     \<Longrightarrow> ini = res_initiator enc"
  by (auto simp: executeContractCall_def in_fst_bnd io_simps
      dest: callTransferToMeson_populate split: if_splits)


lemma runContractBridge_decompose:
  assumes "getPrivateKey w options = Inr (k, a)"
  shows "ev \<in> set (fst (runContractBridge w options)) \<longleftrightarrow>
     ev \<in> set (fst (fetchAndValidate w options))
     \<or> (\<exists>cs fc m. snd (fetchAndValidate w options) = Inr (cs, fc)
          \<and> resolveMesonContractAddress (opt_mesonContract options) cs fc = Inr m
          \<and> (ev \<in> set (fst (deployIfNeeded w options k m))
             \<or> (\<exists>fca. snd (deployIfNeeded w options k m) = Inr fca
                  \<and> (ev \<in> set (fst (encodeContractSwap w options a fca))
                     \<or> (\<exists>efa enc fca'.
                           snd (encodeContractSwap w options a fca) = Inr (efa, enc, fca')
                           \<and> ev \<in> set (fst (executeContractCall w options k m efa enc
                                                 fca')))))))"
  unfolding runContractBridge_def assms lift_def
  by (simp add: bnd_Inr in_fst_bnd case_prod_beta)

subsection \<open>The encode request of the contract flow\<close>

lemma runContractBridge_request:
  assumes key: "getPrivateKey w options = Inr (k, a)"
    and ev: "Request (POST_swap p) \<in> set (fst (runContractBridge w options))"
  shows "\<exists>cs fc m fca. snd (fetchAndValidate w options) = Inr (cs, fc)
      \<and> resolveMesonContractAddress (opt_mesonContract options) cs fc = Inr m
      \<and> snd (deployIfNeeded w options k m) = Inr fca
      \<and> p = \<lparr>par_from = opt_from options, par_to = opt_to options,
            par_amount = opt_amount options,
            par_fromAddress = (if truthy fca then unwrap fca else a),
            par_recipient = opt_recipient options, par_fromContract = Some True,
            par_dataToContract = None\<rparr>"
proof -
  have 1: "Request (POST_swap p) \<notin> set (fst (fetchAndValidate w options))"
    using fst_fetchAndValidate [of "Request (POST_swap p)" w options] by auto
  have 2: "Request (POST_swap p) \<notin> set (fst (deployIfNeeded w options k m))" for m
    using fst_deployIfNeeded [of "Request (POST_swap p)" w options k m] by auto
  from ev show ?thesis
    unfolding runContractBridge_decompose [OF key]
    by (simp add: 1 2 fst_executeContractCall_request fst_encodeContractSwap)
qed

lemma runContractBridge_populate:
  assumes key: "getPrivateKey w options = Inr (k, a)"
    and ev: "PopulateTransaction c n ini x \<in> set (fst (runContractBridge w options))"
  shows "\<exists>fca efa enc fca'. snd (encodeContractSwap w options a fca) = Inr (efa, enc, fca')
      \<and> Request (POST_swap \<lparr>par_from = opt_from options, par_to = opt_to options,
            par_amount = opt_amount options, par_fromAddress = efa,
            par_recipient = opt_recipient options, par_fromContract = Some True,
            par_dataToContract = None\<rparr>) \<in> set (fst (runContractBridge w options))
      \<and> ini = res_initiator enc"
proof -
  have 1: "PopulateTransaction c n ini x \<notin> set (fst (fetchAndValidate w options))"
    using fst_fetchAndValidate [of "PopulateTransaction c n ini x" w options] by auto
  have 2: "PopulateTransaction c n ini x \<notin> set (fst (deployIfNeeded w options k m))" for m
    using fst_deployIfNeeded [of "PopulateTransaction c n ini x" w options k m] by auto
  from ev obtain cs fc m fca efa enc fca' where
    s: "snd (fetchAndValidate w options) = Inr (cs, fc)"
      "resolveMesonContractAddress (opt_mesonContract options) cs fc = Inr m"
      "snd (deployIfNeeded w options k m) = Inr fca"
      "snd (encodeContractSwap w options a fca) = Inr (efa, enc, fca')"
      "PopulateTransaction c n ini x \<in> set (fst (executeContractCall w options k m efa enc fca'))"
    unfolding runContractBridge_decompose [OF key]
    by (auto simp: 1 2 fst_encodeContractSwap)
  have efa: "efa = (if truthy fca then unwrap fca else a)"
    using snd_encodeContractSwap [OF s(4)] by simp
  have "Request (POST_swap \<lparr>par_from = opt_from options, par_to = opt_to options,
            par_amount = opt_amount options, par_fromAddress = efa,
            par_recipient = opt_recipient options, par_fromContract = Some True,
            par_dataToContract = None\<rparr>) \<in> set (fst (runContractBridge w options))"
    unfolding runContractBridge_decompose [OF key] efa
    using s(1-3) by (auto simp: fst_encodeContractSwap)
  moreover have "ini = res_initiator enc"
    using s(5) by (rule fst_executeContractCall_populate)
  ultimately show ?thesis using s(4) by blast
qed


text \<open>
  C3, as the code has it. In every run of the contract flow, an encode request carries
  the contract flag. Its sender address is the \<open>--transfer-contract\<close> override when one
  is given; without an override it is the address of the contract deployed just before
  (deploy-if-missing set and no dry run; the caller's own address if that address is
  empty), and else the caller's own derived address. The initiator given to the
  contract call is the one of the relayer's answer when that is non-empty, and the
  caller's own derived address exactly when the answer has none.
\<close>

theorem contract_encode_request:
  "getPrivateKey w options = Inr (k, a) \<longrightarrow>
     (\<forall>p. Request (POST_swap p) \<in> set (fst (runContractBridge w options)) \<longrightarrow>
        par_fromContract p = Some True
        \<and> (truthy (opt_transferContract options) \<longrightarrow>
             par_fromAddress p = unwrap (opt_transferContract options))
        \<and> (\<not> truthy (opt_transferContract options)
             \<and> (\<not> opt_deployIfMissing options \<or> opt_dryRun options) \<longrightarrow>
             par_fromAddress p = a)
        \<and> (\<not> truthy (opt_transferContract options)
             \<and> opt_deployIfMissing options \<and> \<not> opt_dryRun options \<longrightarrow>
             (\<exists>cs fc m d. snd (fetchAndValidate w options) = Inr (cs, fc)
                \<and> resolveMesonContractAddress (opt_mesonContract options) cs fc = Inr m
                \<and> deploy w (opt_rpcUrl options) m k = Inr d
                \<and> par_fromAddress p = (if d = [] then a else d))))
     \<and> (\<forall>c n ini x.
          PopulateTransaction c n ini x \<in> set (fst (runContractBridge w options)) \<longrightarrow>
          (\<exists>p. Request (POST_swap p) \<in> set (fst (runContractBridge w options))
             \<and> (case axios_swap w p of
                  Inl failure \<Rightarrow> False
                | Inr resp \<Rightarrow>
                    (case result resp of
                       None \<Rightarrow> False
                     | Some r \<Rightarrow>
                         ini = (if truthy (res_initiator r) then res_initiator r
                                else Some a)))))"
proof (intro impI conjI allI)
  fix p
  assume key: "getPrivateKey w options = Inr (k, a)"
    and ev: "Request (POST_swap p) \<in> set (fst (runContractBridge w options))"
  from runContractBridge_request [OF key ev] obtain cs fc m fca where
    s: "snd (fetchAndValidate w options) = Inr (cs, fc)"
      "resolveMesonContractAddress (opt_mesonContract options) cs fc = Inr m"
      "snd (deployIfNeeded w options k m) = Inr fca"
    and p: "par_fromContract p = Some True"
      "par_fromAddress p = (if truthy fca then unwrap fca else a)"
    by force
  note d = snd_deployIfNeeded [OF s(3)]
  show "par_fromContract p = Some True" by (rule p(1))
  show "par_fromAddress p = unwrap (opt_transferContract options)"
    if "truthy (opt_transferContract options)"
    using that d p(2) by simp
  show "par_fromAddress p = a"
    if "\<not> truthy (opt_transferContract options)
        \<and> (\<not> opt_deployIfMissing options \<or> opt_dryRun options)"
    using that d p(2) by auto
  show "\<exists>cs fc m d. snd (fetchAndValidate w options) = Inr (cs, fc)
      \<and> resolveMesonContractAddress (opt_mesonContract options) cs fc = Inr m
      \<and> deploy w (opt_rpcUrl options) m k = Inr d
      \<and> par_fromAddress p = (if d = [] then a else d)"
    if "\<not> truthy (opt_transferContract options)
        \<and> opt_deployIfMissing options \<and> \<not> opt_dryRun options"
  proof -
    from that d obtain dd where dd: "deploy w (opt_rpcUrl options) m k = Inr dd" "fca = Some dd"
      by auto
    then have "par_fromAddress p = (if dd = [] then a else dd)"
      using p(2) by (simp add: unwrap_def)
    with s(1,2) dd(1) show ?thesis by blast
  qed
next
  fix c n ini x
  assume key: "getPrivateKey w options = Inr (k, a)"
    and ev: "PopulateTransaction c n ini x \<in> set (fst (runContractBridge w options))"
  from runContractBridge_populate [OF key ev] obtain fca efa enc fca' where
    e: "snd (encodeContractSwap w options a fca) = Inr (efa, enc, fca')"
    and r: "Request (POST_swap \<lparr>par_from = opt_from options, par_to = opt_to options,
            par_amount = opt_amount options, par_fromAddress = efa,
            par_recipient = opt_recipient options, par_fromContract = Some True,
            par_dataToContract = None\<rparr>) \<in> set (fst (runContractBridge w options))"
    and i: "ini = res_initiator enc"
    by blast
  define P where "P = \<lparr>par_from = opt_from options, par_to = opt_to options,
            par_amount = opt_amount options, par_fromAddress = efa,
            par_recipient = opt_recipient options, par_fromContract = Some True,
            par_dataToContract = None\<rparr>"
  from snd_encodeContractSwap [OF e]
  have c: "case axios_swap w P of
          Inl failure \<Rightarrow> False
        | Inr resp \<Rightarrow>
            (case result resp of
               None \<Rightarrow> False
             | Some r \<Rightarrow>
                 res_encoded r \<noteq> []
                 \<and> enc = (if truthy (res_initiator r) then r else r\<lparr>res_initiator := Some a\<rparr>)
                 \<and> fca' = (if truthy (res_fromContract r) \<and> \<not> truthy fca
                            then res_fromContract r else fca))"
    unfolding P_def by (rule conjunct2)
  then obtain resp where resp: "axios_swap w P = Inr resp"
    and c2: "case result resp of
               None \<Rightarrow> False
             | Some r \<Rightarrow>
                 res_encoded r \<noteq> []
                 \<and> enc = (if truthy (res_initiator r) then r else r\<lparr>res_initiator := Some a\<rparr>)
                 \<and> fca' = (if truthy (res_fromContract r) \<and> \<not> truthy fca
                            then res_fromContract r else fca)"
    by (cases "axios_swap w P") auto
  then obtain r where res: "result resp = Some r"
    and enc: "enc = (if truthy (res_initiator r) then r else r\<lparr>res_initiator := Some a\<rparr>)"
    by (cases "result resp") auto
  have "ini = (if truthy (res_initiator r) then res_initiator r else Some a)"
    using i enc by (cases "truthy (res_initiator r)") simp_all
  then have "case axios_swap w P of
            Inl failure \<Rightarrow> False
          | Inr resp \<Rightarrow>
              (case result resp of
                 None \<Rightarrow> False
               | Some r \<Rightarrow>
                   ini = (if truthy (res_initiator r) then res_initiator r else Some a))"
    using resp res by simp
  with r show "\<exists>p. Request (POST_swap p) \<in> set (fst (runContractBridge w options))
      \<and> (case axios_swap w p of
            Inl failure \<Rightarrow> False
          | Inr resp \<Rightarrow>
              (case result resp of
                 None \<Rightarrow> False
               | Some r \<Rightarrow>
                   ini = (if truthy (res_initiator r) then res_initiator r else Some a)))"
    unfolding P_def by blast
qed


theorem contract_encode_request_witness:
  "getPrivateKey sample_world (sample_contract_options\<lparr>opt_deployIfMissing := True\<rparr>)
     = Inr (''key'', ''0xME'')
   \<and> deploy sample_world ''http://rpc'' ''0xAAA'' ''key'' = Inr ''0xT''
   \<and> Request (POST_swap \<lparr>par_from = ''base:eth'', par_to = ''blast:usdc'',
          par_amount = ''10'', par_fromAddress = ''0xT'', par_recipient = ''0xR'',
          par_fromContract = Some True, par_dataToContract = None\<rparr>)
       \<in> set (fst (runContractBridge sample_world
                    (sample_contract_options\<lparr>opt_deployIfMissing := True\<rparr>)))
   \<and> res_initiator sample_result = None
   \<and> PopulateTransaction ''0xT'' 1 (Some ''0xME'') ''10''
       \<in> set (fst (runContractBridge sample_world
                    (sample_contract_options\<lparr>opt_deployIfMissing := True\<rparr>)))"
  using contract_encode_request [of sample_world
      "sample_contract_options\<lparr>opt_deployIfMissing := True\<rparr>" "''key''" "''0xME''"]
  by (simp add: flow_defs start_defs io_defs sample_defs signed_divide_int_def)

text \<open>
  The claim as stated fails: in a dry run without a \<open>--transfer-contract\<close> override the
  encode request is sent with the caller's own derived address as the sender; and an
  initiator named by the relayer is kept, whatever the caller's address is.
\<close>

theorem contract_encode_request_counterexample:
  "getPrivateKey sample_world (sample_contract_options\<lparr>opt_dryRun := True\<rparr>)
     = Inr (''key'', ''0xME'')
   \<and> Request (POST_swap \<lparr>par_from = ''base:eth'', par_to = ''blast:usdc'',
          par_amount = ''10'', par_fromAddress = ''0xME'', par_recipient = ''0xR'',
          par_fromContract = Some True, par_dataToContract = None\<rparr>)
       \<in> set (fst (runContractBridge sample_world
                    (sample_contract_options\<lparr>opt_dryRun := True\<rparr>)))
   \<and> PopulateTransaction ''0xTC'' 1 (Some ''0xOTHER'') ''10''
       \<in> set (fst (runContractBridge
                    (sample_world\<lparr>axios_swap := (\<lambda>p. Inr \<lparr>result =
                        Some (sample_result\<lparr>res_initiator := Some ''0xOTHER''\<rparr>),
                        error = None\<rparr>)\<rparr>)
                    (sample_contract_options\<lparr>opt_transferContract := Some ''0xTC''\<rparr>)))"
  by (simp add: flow_defs start_defs io_defs sample_defs signed_divide_int_def)

subsection \<open>The missing intermediary contract\<close>

lemma snd_bnd_cases:
  "snd (bnd m f) = Inl e \<longleftrightarrow> snd m = Inl e \<or> (\<exists>x. snd m = Inr x \<and> snd (f x) = Inl e)"
  by (cases m) (auto simp: bnd_def split: sum.splits prod.splits)

lemma validateAmount_errors:
  "snd (validateAmount pf limits c t a) = Inl e \<Longrightarrow> \<exists>mn mx. e = AmountOutOfRangeError a t c mn mx"
  by (auto simp: validateAmount_def perform_def throw_def ret_def split: option.splits if_splits)

lemma fetchAndValidate_not_missing:
  "snd (fetchAndValidate w options) \<noteq> Inl MissingIntermediaryContractError"
  by (auto simp: fetchAndValidate_def snd_bnd_cases io_simps case_prod_beta
      dest!: getSupportedChains_errors getSwapLimits_errors validateChainToken_errors
        validateAmount_errors)

lemma deployIfNeeded_not_missing:
  "snd (deployIfNeeded w options k m) \<noteq> Inl MissingIntermediaryContractError"
  by (auto simp: deployIfNeeded_def deployTransferToMesonContract_def snd_bnd_cases io_simps
      failing_def split: if_splits sum.splits)

lemma encodeSwap_not_missing:
  "snd (encodeSwap w f t a fa r fc d) \<noteq> Inl MissingIntermediaryContractError"
proof -
  define P where "P = \<lparr>par_from = f, par_to = t, par_amount = a, par_fromAddress = fa,
      par_recipient = r, par_fromContract = (if fc = Some True then fc else None),
      par_dataToContract = (if truthy d then d else None)\<rparr>"
  show ?thesis
    unfolding encodeSwap_def Let_def perform_def P_def [symmetric]
    by (cases "axios_swap w P"; cases "result (projr (axios_swap w P))";
        cases "error (projr (axios_swap w P))") simp_all
qed

lemma encodeContractSwap_not_missing:
  "snd (encodeContractSwap w options a fca) \<noteq> Inl MissingIntermediaryContractError"
  unfolding encodeContractSwap_def Let_def
  by (auto simp: snd_bnd_cases io_simps encodeSwap_not_missing split: if_splits)


lemma failing_Inl: "failing mk r = Inl e \<Longrightarrow> \<exists>f. e = mk f"
  by (auto simp: failing_def split: sum.splits)

lemma callTransferToMeson_missing:
  "snd (callTransferToMeson w url m enc k amt tca dep) = Inl MissingIntermediaryContractError
     \<longleftrightarrow> \<not> truthy tca \<and> \<not> dep"
  unfolding callTransferToMeson_def Let_def deployTransferToMesonContract_def
  by (auto simp: snd_bnd_cases io_simps split: if_splits option.splits dest!: failing_Inl)

lemma callTransferToMeson_missing_trace:
  "\<not> truthy tca \<Longrightarrow> \<not> dep \<Longrightarrow> fst (callTransferToMeson w url m enc k amt tca dep) = []"
  unfolding callTransferToMeson_def Let_def
  by (simp add: throw_def bnd_Inl)

lemma executeContractCall_missing:
  "snd (executeContractCall w options k m efa enc fca) = Inl MissingIntermediaryContractError
     \<longleftrightarrow> \<not> opt_dryRun options \<and> \<not> truthy fca \<and> \<not> opt_deployIfMissing options"
  unfolding executeContractCall_def
  by (auto simp: snd_bnd_cases io_simps callTransferToMeson_missing)

lemma executeContractCall_missing_trace:
  "\<not> opt_dryRun options \<Longrightarrow> \<not> truthy fca \<Longrightarrow> \<not> opt_deployIfMissing options \<Longrightarrow>
     fst (executeContractCall w options k m efa enc fca) = []"
  unfolding executeContractCall_def
  by (simp add: fst_bnd callTransferToMeson_missing_trace io_simps split: sum.splits)

lemma getPrivateKey_errors:
  "getPrivateKey w options = Inl e \<Longrightarrow> e = MissingPrivateKeyError \<or> e = InvalidKeyError"
  by (auto simp: getPrivateKey_def deriveAddress_def Let_def split: if_splits option.splits)

lemma resolve_errors:
  "resolveMesonContractAddress opt cs fc = Inl e \<Longrightarrow> e = ContractAddressNotFoundError fc"
  by (auto simp: resolveMesonContractAddress_def Let_def split: if_splits)

lemma runContractBridge_no_key:
  "getPrivateKey w options = Inl e \<Longrightarrow> runContractBridge w options = ([], Inl e)"
  by (simp add: runContractBridge_def lift_def bnd_Inl)

lemma runContractBridge_error:
  assumes "getPrivateKey w options = Inr (k, a)"
  shows "snd (runContractBridge w options) = Inl e \<longleftrightarrow>
     snd (fetchAndValidate w options) = Inl e
     \<or> (\<exists>cs fc. snd (fetchAndValidate w options) = Inr (cs, fc)
          \<and> (resolveMesonContractAddress (opt_mesonContract options) cs fc = Inl e
             \<or> (\<exists>m. resolveMesonContractAddress (opt_mesonContract options) cs fc = Inr m
                  \<and> (snd (deployIfNeeded w options k m) = Inl e
                     \<or> (\<exists>fca. snd (deployIfNeeded w options k m) = Inr fca
                          \<and> (snd (encodeContractSwap w options a fca) = Inl e
                             \<or> (\<exists>efa enc fca'.
                                   snd (encodeContractSwap w options a fca)
                                     = Inr (efa, enc, fca')
                                   \<and> snd (executeContractCall w options k m efa enc fca')
                                       = Inl e)))))))"
  unfolding runContractBridge_def assms lift_def
  by (simp add: bnd_Inr snd_bnd_cases case_prod_beta)

lemma runContractBridge_trace:
  assumes "getPrivateKey w options = Inr (k, a)"
    and "snd (fetchAndValidate w options) = Inr (cs, fc)"
    and "resolveMesonContractAddress (opt_mesonContract options) cs fc = Inr m"
    and "snd (deployIfNeeded w options k m) = Inr fca"
    and "snd (encodeContractSwap w options a fca) = Inr (efa, enc, fca')"
  shows "fst (runContractBridge w options) =
     fst (fetchAndValidate w options) @ fst (deployIfNeeded w options k m)
       @ fst (encodeContractSwap w options a fca)
       @ fst (executeContractCall w options k m efa enc fca')"
  unfolding runContractBridge_def assms(1) lift_def
  by (simp add: bnd_Inr fst_bnd assms(2-5))


lemma deployIfNeeded_skip:
  "\<not> opt_deployIfMissing options \<Longrightarrow>
     deployIfNeeded w options k m = ([], Inr (opt_transferContract options))"
  by (simp add: deployIfNeeded_def ret_def)

lemma runContractBridge_missing:
  assumes miss: "snd (runContractBridge w options) = Inl MissingIntermediaryContractError"
  shows "\<not> opt_dryRun options \<and> \<not> opt_deployIfMissing options
     \<and> \<not> truthy (opt_transferContract options)
     \<and> (\<exists>k a. getPrivateKey w options = Inr (k, a)
          \<and> fst (runContractBridge w options) =
              fst (fetchAndValidate w options)
                @ [Request (POST_swap \<lparr>par_from = opt_from options, par_to = opt_to options,
                     par_amount = opt_amount options, par_fromAddress = a,
                     par_recipient = opt_recipient options, par_fromContract = Some True,
                     par_dataToContract = None\<rparr>)])"
proof -
  obtain k a where key: "getPrivateKey w options = Inr (k, a)"
  proof (cases "getPrivateKey w options")
    case (Inl e)
    with miss runContractBridge_no_key [OF Inl] getPrivateKey_errors [OF Inl]
    show ?thesis by auto
  next
    case (Inr ka)
    with that show ?thesis by (cases ka) auto
  qed
  from miss obtain cs fc m fca efa enc fca' where
    s: "snd (fetchAndValidate w options) = Inr (cs, fc)"
      "resolveMesonContractAddress (opt_mesonContract options) cs fc = Inr m"
      "snd (deployIfNeeded w options k m) = Inr fca"
      "snd (encodeContractSwap w options a fca) = Inr (efa, enc, fca')"
    and x: "snd (executeContractCall w options k m efa enc fca')
      = Inl MissingIntermediaryContractError"
    unfolding runContractBridge_error [OF key]
    using fetchAndValidate_not_missing [of w options] deployIfNeeded_not_missing [of w options k]
      encodeContractSwap_not_missing [of w options a]
    by (auto dest: resolve_errors)
  from x have f: "\<not> opt_dryRun options" "\<not> truthy fca'" "\<not> opt_deployIfMissing options"
    by (simp_all add: executeContractCall_missing)
  from f(3) s(3) have fca: "fca = opt_transferContract options"
    by (simp add: deployIfNeeded_skip)
  have nf: "\<not> truthy fca"
  proof
    assume t: "truthy fca"
    from snd_encodeContractSwap [OF s(4)]
    have "case axios_swap w \<lparr>par_from = opt_from options, par_to = opt_to options,
            par_amount = opt_amount options, par_fromAddress = efa,
            par_recipient = opt_recipient options, par_fromContract = Some True,
            par_dataToContract = None\<rparr> of
          Inl failure \<Rightarrow> False
        | Inr resp \<Rightarrow> (case result resp of None \<Rightarrow> False | Some r \<Rightarrow> fca' = fca)"
      using t by (auto split: sum.splits option.splits)
    then have "fca' = fca"
      by (auto split: sum.splits option.splits)
    with t f(2) show False by simp
  qed
  have "fst (runContractBridge w options) =
      fst (fetchAndValidate w options)
        @ [Request (POST_swap \<lparr>par_from = opt_from options, par_to = opt_to options,
             par_amount = opt_amount options, par_fromAddress = a,
             par_recipient = opt_recipient options, par_fromContract = Some True,
             par_dataToContract = None\<rparr>)]"
    unfolding runContractBridge_trace [OF key s]
    using f nf by (simp add: deployIfNeeded_skip fst_encodeContractSwap
        executeContractCall_missing_trace)
  with key f nf fca show ?thesis by auto
qed


lemma encodeContractSwap_answer:
  assumes "\<not> truthy fca"
    and "axios_swap w \<lparr>par_from = opt_from options, par_to = opt_to options,
           par_amount = opt_amount options, par_fromAddress = a,
           par_recipient = opt_recipient options, par_fromContract = Some True,
           par_dataToContract = None\<rparr> = Inr resp"
    and "result resp = Some r" and "res_encoded r \<noteq> []"
  shows "encodeContractSwap w options a fca =
     ([Request (POST_swap \<lparr>par_from = opt_from options, par_to = opt_to options,
           par_amount = opt_amount options, par_fromAddress = a,
           par_recipient = opt_recipient options, par_fromContract = Some True,
           par_dataToContract = None\<rparr>)],
      Inr (a, (if truthy (res_initiator r) then r else r\<lparr>res_initiator := Some a\<rparr>),
           (if truthy (res_fromContract r) then res_fromContract r else fca)))"
  unfolding encodeContractSwap_def encodeSwap_def Let_def perform_def
  using assms by (simp add: bnd_Inr ret_def throw_def)

lemma runContractBridge_no_intermediary:
  assumes tc: "\<not> truthy (opt_transferContract options)"
    and dim: "\<not> opt_deployIfMissing options"
    and key: "getPrivateKey w options = Inr (k, a)"
    and fv: "fetchAndValidate w options = (t, Inr (cs, fc))"
    and res: "resolveMesonContractAddress (opt_mesonContract options) cs fc = Inr m"
    and ax: "axios_swap w \<lparr>par_from = opt_from options, par_to = opt_to options,
           par_amount = opt_amount options, par_fromAddress = a,
           par_recipient = opt_recipient options, par_fromContract = Some True,
           par_dataToContract = None\<rparr> = Inr resp"
    and r: "result resp = Some r" "res_encoded r \<noteq> []"
  shows "(opt_dryRun options \<longrightarrow>
       runContractBridge w options =
         (t @ [Request (POST_swap \<lparr>par_from = opt_from options, par_to = opt_to options,
                 par_amount = opt_amount options, par_fromAddress = a,
                 par_recipient = opt_recipient options, par_fromContract = Some True,
                 par_dataToContract = None\<rparr>),
               DryRunContract (res_encoded r) m NotRequested (opt_recipient options) a
                 (opt_amount options)],
          Inr ()))
     \<and> (\<not> opt_dryRun options \<and> \<not> truthy (res_fromContract r) \<longrightarrow>
       runContractBridge w options =
         (t @ [Request (POST_swap \<lparr>par_from = opt_from options, par_to = opt_to options,
                 par_amount = opt_amount options, par_fromAddress = a,
                 par_recipient = opt_recipient options, par_fromContract = Some True,
                 par_dataToContract = None\<rparr>)],
          Inl MissingIntermediaryContractError))
     \<and> (\<not> opt_dryRun options \<and> truthy (res_fromContract r) \<longrightarrow>
       snd (runContractBridge w options) \<noteq> Inl MissingIntermediaryContractError)"
proof (intro conjI impI)
  note e = encodeContractSwap_answer [OF tc ax r]
  note start = runContractBridge_def key lift_def fv res bnd_Inr deployIfNeeded_skip [OF dim] e
  show "runContractBridge w options =
         (t @ [Request (POST_swap \<lparr>par_from = opt_from options, par_to = opt_to options,
                 par_amount = opt_amount options, par_fromAddress = a,
                 par_recipient = opt_recipient options, par_fromContract = Some True,
                 par_dataToContract = None\<rparr>),
               DryRunContract (res_encoded r) m NotRequested (opt_recipient options) a
                 (opt_amount options)],
          Inr ())"
    if "opt_dryRun options"
    using that tc dim
    by (simp add: start executeContractCall_def perform_def)
  show "runContractBridge w options =
         (t @ [Request (POST_swap \<lparr>par_from = opt_from options, par_to = opt_to options,
                 par_amount = opt_amount options, par_fromAddress = a,
                 par_recipient = opt_recipient options, par_fromContract = Some True,
                 par_dataToContract = None\<rparr>)],
          Inl MissingIntermediaryContractError)"
    if "\<not> opt_dryRun options \<and> \<not> truthy (res_fromContract r)"
    using that tc dim
    by (simp add: start executeContractCall_def callTransferToMeson_def Let_def throw_def
        bnd_Inl)
  show "snd (runContractBridge w options) \<noteq> Inl MissingIntermediaryContractError"
    if "\<not> opt_dryRun options \<and> truthy (res_fromContract r)"
    using that tc dim
    by (simp add: start executeContractCall_missing)
qed

subsection \<open>Completed dry runs, the estimate and the adopted contract\<close>

lemma callTransferToMeson_estimate:
  "EstimateGas tx \<in> set (fst (callTransferToMeson w url m enc k amt tca dep)) \<Longrightarrow>
   estimateGas w url tx = Inr E \<Longrightarrow>
     SendTransaction tx (E * 12 sdiv 10)
       \<in> set (fst (callTransferToMeson w url m enc k amt tca dep))"
  by (auto simp: callTransferToMeson_def deployTransferToMesonContract_def in_fst_bnd io_simps
      Let_def failing_Inr split: if_splits)

lemma executeContractCall_estimate:
  "EstimateGas tx \<in> set (fst (executeContractCall w options k m efa enc fca)) \<Longrightarrow>
   estimateGas w (opt_rpcUrl options) tx = Inr E \<Longrightarrow>
     SendTransaction tx (E * 12 sdiv 10)
       \<in> set (fst (executeContractCall w options k m efa enc fca))"
  by (auto simp: executeContractCall_def in_fst_bnd io_simps
      dest: callTransferToMeson_estimate split: if_splits)

lemma runContractBridge_estimate:
  assumes ev: "EstimateGas tx \<in> set (fst (runContractBridge w options))"
    and est: "estimateGas w (opt_rpcUrl options) tx = Inr E"
  shows "SendTransaction tx (E * 12 sdiv 10) \<in> set (fst (runContractBridge w options))"
proof (cases "getPrivateKey w options")
  case (Inl e)
  with ev runContractBridge_no_key [OF Inl] show ?thesis by simp
next
  case (Inr ka)
  then obtain k a where key: "getPrivateKey w options = Inr (k, a)"
    by (cases ka) auto
  have 1: "EstimateGas tx \<notin> set (fst (fetchAndValidate w options))"
    using fst_fetchAndValidate [of "EstimateGas tx" w options] by auto
  have 2: "EstimateGas tx \<notin> set (fst (deployIfNeeded w options k m))" for m
    using fst_deployIfNeeded [of "EstimateGas tx" w options k m] by auto
  from ev obtain cs fc m fca efa enc fca' where
    s: "snd (fetchAndValidate w options) = Inr (cs, fc)"
      "resolveMesonContractAddress (opt_mesonContract options) cs fc = Inr m"
      "snd (deployIfNeeded w options k m) = Inr fca"
      "snd (encodeContractSwap w options a fca) = Inr (efa, enc, fca')"
      "EstimateGas tx \<in> set (fst (executeContractCall w options k m efa enc fca'))"
    unfolding runContractBridge_decompose [OF key]
    by (auto simp: 1 2 fst_encodeContractSwap)
  from executeContractCall_estimate [OF s(5) est] s(1-4)
  show ?thesis
    unfolding runContractBridge_decompose [OF key] by blast
qed











lemma callTransferToMeson_given:
  "truthy tca \<Longrightarrow> ev \<in> set (fst (callTransferToMeson w url m enc k amt tca dep)) \<Longrightarrow>
     (\<forall>x. ev \<noteq> Deploy x)
     \<and> (\<forall>c n i x. ev = PopulateTransaction c n i x \<longrightarrow> c = unwrap tca)"
  by (auto simp: callTransferToMeson_def in_fst_bnd io_simps Let_def failing_Inr
      split: if_splits)

lemma runContractBridge_encode_first:
  assumes tc: "\<not> truthy (opt_transferContract options)"
    and dep: "\<not> opt_deployIfMissing options"
    and key: "getPrivateKey w options = Inr (k, a)"
    and fv: "fetchAndValidate w options = (t, Inr (cs, fc))"
    and res: "resolveMesonContractAddress (opt_mesonContract options) cs fc = Inr m"
  shows "\<exists>rest. fst (runContractBridge w options) =
     t @ Request (POST_swap \<lparr>par_from = opt_from options, par_to = opt_to options,
           par_amount = opt_amount options, par_fromAddress = a,
           par_recipient = opt_recipient options, par_fromContract = Some True,
           par_dataToContract = None\<rparr>) # rest"
  using tc
  by (simp add: runContractBridge_def key lift_def fv res bnd_Inr deployIfNeeded_skip [OF dep]
      fst_bnd fst_encodeContractSwap)

lemma runContractBridge_adopted:
  assumes tc: "\<not> truthy (opt_transferContract options)"
    and dep: "\<not> opt_deployIfMissing options"
    and key: "getPrivateKey w options = Inr (k, a)"
    and fv: "fetchAndValidate w options = (t, Inr (cs, fc))"
    and res: "resolveMesonContractAddress (opt_mesonContract options) cs fc = Inr m"
    and ax: "axios_swap w \<lparr>par_from = opt_from options, par_to = opt_to options,
           par_amount = opt_amount options, par_fromAddress = a,
           par_recipient = opt_recipient options, par_fromContract = Some True,
           par_dataToContract = None\<rparr> = Inr resp"
    and r: "result resp = Some r" "res_encoded r \<noteq> []"
    and nd: "\<not> opt_dryRun options" and fc: "truthy (res_fromContract r)"
  shows "fst (runContractBridge w options) =
       t @ [Request (POST_swap \<lparr>par_from = opt_from options, par_to = opt_to options,
                 par_amount = opt_amount options, par_fromAddress = a,
                 par_recipient = opt_recipient options, par_fromContract = Some True,
                 par_dataToContract = None\<rparr>)]
         @ fst (callTransferToMeson w (opt_rpcUrl options) m
                  (if truthy (res_initiator r) then r else r\<lparr>res_initiator := Some a\<rparr>) k
                  (opt_amount options) (res_fromContract r) False)"
    and "\<forall>ev \<in> set (fst (runContractBridge w options)).
       (\<forall>x. ev \<noteq> Deploy x)
       \<and> (\<forall>c n i x. ev = PopulateTransaction c n i x \<longrightarrow> c = unwrap (res_fromContract r))"
proof -
  note e = encodeContractSwap_answer [OF tc ax r]
  show tr: "fst (runContractBridge w options) =
       t @ [Request (POST_swap \<lparr>par_from = opt_from options, par_to = opt_to options,
                 par_amount = opt_amount options, par_fromAddress = a,
                 par_recipient = opt_recipient options, par_fromContract = Some True,
                 par_dataToContract = None\<rparr>)]
         @ fst (callTransferToMeson w (opt_rpcUrl options) m
                  (if truthy (res_initiator r) then r else r\<lparr>res_initiator := Some a\<rparr>) k
                  (opt_amount options) (res_fromContract r) False)"
    using tc dep nd fc
    by (simp add: runContractBridge_def key lift_def fv res bnd_Inr deployIfNeeded_skip [OF dep]
        e executeContractCall_def fst_bnd io_simps split: sum.splits)
  show "\<forall>ev \<in> set (fst (runContractBridge w options)).
       (\<forall>x. ev \<noteq> Deploy x)
       \<and> (\<forall>c n i x. ev = PopulateTransaction c n i x \<longrightarrow> c = unwrap (res_fromContract r))"
    unfolding tr
    using callTransferToMeson_given [OF fc] fetchAndValidate_events [OF fv]
    by (auto simp del: set_append simp: set_append) blast+
qed

subsection \<open>The claims on whole runs\<close>

text \<open>
  C6. Whenever a run of the contract flow sends a transaction, the gas limit attached
  to it is the gas estimate \<open>E\<close> of that transaction times 12, divided by 10 in exact
  integer arithmetic; for a non-negative estimate that is \<open>floor(E * 12 / 10)\<close>. An
  estimate of 100000 gives the limit 120000, and 100001 gives 120001. And whenever a run
  asks for the gas estimate of a transaction and gets the estimate \<open>E\<close>, it sends that
  transaction with the limit \<open>E * 12 / 10\<close>.
\<close>

theorem gasLimit_of_estimate:
  "(SendTransaction tx g \<in> set (fst (runContractBridge w options)) \<longrightarrow>
     (\<exists>E. estimateGas w (opt_rpcUrl options) tx = Inr E \<and> g = E * 12 sdiv 10
        \<and> (0 \<le> E \<longrightarrow> g = \<lfloor>(of_int E * 12 / 10 :: real)\<rfloor>)
        \<and> (E = 100000 \<longrightarrow> g = 120000) \<and> (E = 100001 \<longrightarrow> g = 120001)))
   \<and> (EstimateGas tx \<in> set (fst (runContractBridge w options))
        \<and> estimateGas w (opt_rpcUrl options) tx = Inr E' \<longrightarrow>
      SendTransaction tx (E' * 12 sdiv 10) \<in> set (fst (runContractBridge w options))
      \<and> (0 \<le> E' \<longrightarrow> E' * 12 sdiv 10 = \<lfloor>(of_int E' * 12 / 10 :: real)\<rfloor>))"
proof (intro conjI impI)
  assume "SendTransaction tx g \<in> set (fst (runContractBridge w options))"
  then obtain E where E: "estimateGas w (opt_rpcUrl options) tx = Inr E" "g = E * 12 sdiv 10"
    using runContractBridge_send by blast
  have "0 \<le> E \<longrightarrow> g = \<lfloor>(of_int E * 12 / 10 :: real)\<rfloor>"
    using E(2) gasLimit_floor by simp
  moreover have "(E = 100000 \<longrightarrow> g = 120000) \<and> (E = 100001 \<longrightarrow> g = 120001)"
    using E(2) by (simp add: signed_divide_int_def)
  ultimately show "\<exists>E. estimateGas w (opt_rpcUrl options) tx = Inr E \<and> g = E * 12 sdiv 10
        \<and> (0 \<le> E \<longrightarrow> g = \<lfloor>(of_int E * 12 / 10 :: real)\<rfloor>)
        \<and> (E = 100000 \<longrightarrow> g = 120000) \<and> (E = 100001 \<longrightarrow> g = 120001)"
    using E by blast
next
  assume "EstimateGas tx \<in> set (fst (runContractBridge w options))
      \<and> estimateGas w (opt_rpcUrl options) tx = Inr E'"
  then show "SendTransaction tx (E' * 12 sdiv 10) \<in> set (fst (runContractBridge w options))"
    using runContractBridge_estimate by blast
next
  assume "0 \<le> E'"
  then show "E' * 12 sdiv 10 = \<lfloor>(of_int E' * 12 / 10 :: real)\<rfloor>"
    by (rule gasLimit_floor)
qed

theorem gasLimit_of_estimate_witness:
  "EstimateGas \<lparr>tx_to = ''0xT'', tx_data = ''d'', tx_value = 0\<rparr>
     \<in> set (fst (runContractBridge sample_world
                  (sample_contract_options\<lparr>opt_deployIfMissing := True\<rparr>)))
   \<and> SendTransaction \<lparr>tx_to = ''0xT'', tx_data = ''d'', tx_value = 0\<rparr> 120001
     \<in> set (fst (runContractBridge sample_world
                  (sample_contract_options\<lparr>opt_deployIfMissing := True\<rparr>)))
   \<and> estimateGas sample_world ''http://rpc'' \<lparr>tx_to = ''0xT'', tx_data = ''d'', tx_value = 0\<rparr>
       = Inr 100001
   \<and> (120001::int) = \<lfloor>(of_int 100001 * 12 / 10 :: real)\<rfloor>
   \<and> SendTransaction \<lparr>tx_to = ''0xTC'', tx_data = ''d'', tx_value = 0\<rparr> 120000
     \<in> set (fst (runContractBridge (sample_world\<lparr>estimateGas := (\<lambda>u t. Inr 100000)\<rparr>)
                  (sample_contract_options\<lparr>opt_transferContract := Some ''0xTC''\<rparr>)))"
proof -
  have est: "EstimateGas \<lparr>tx_to = ''0xT'', tx_data = ''d'', tx_value = 0\<rparr>
     \<in> set (fst (runContractBridge sample_world
                  (sample_contract_options\<lparr>opt_deployIfMissing := True\<rparr>)))
     \<and> estimateGas sample_world
          (opt_rpcUrl (sample_contract_options\<lparr>opt_deployIfMissing := True\<rparr>))
          \<lparr>tx_to = ''0xT'', tx_data = ''d'', tx_value = 0\<rparr> = Inr 100001"
    by (simp add: flow_defs start_defs io_defs sample_defs signed_divide_int_def)
  have run': "SendTransaction \<lparr>tx_to = ''0xTC'', tx_data = ''d'', tx_value = 0\<rparr> 120000
     \<in> set (fst (runContractBridge (sample_world\<lparr>estimateGas := (\<lambda>u t. Inr 100000)\<rparr>)
                  (sample_contract_options\<lparr>opt_transferContract := Some ''0xTC''\<rparr>)))"
    by (simp add: flow_defs start_defs io_defs sample_defs signed_divide_int_def)
  from gasLimit_of_estimate [THEN conjunct2, THEN mp, OF est]
    gasLimit_of_estimate [THEN conjunct1, THEN mp, OF run'] est run' show ?thesis
    by (auto simp: sample_defs signed_divide_int_def)
qed



text \<open>
  C2, as the code has it. The contract flow raises \<open>MissingIntermediaryContractError\<close>
  only without dry run, without deploy-if-missing and without a \<open>--transfer-contract\<close>
  override, and only after the encode request: that request, sent with the caller's
  own derived address as the sender, is then the last operation of the run. A run
  without override and without deploy-if-missing that has validated its inputs and
  resolved the Meson contract address sends that encode request next, whatever the
  relayer then answers. When the relayer answers with an encoded swap: a dry run ends
  well with a report that says no contract was provided and none requested; without
  dry run the flow raises the error when the answer names no \<open>fromContract\<close> address;
  when the answer names one, the error is not raised, the run goes on with
  \<open>callTransferToMeson\<close> on that address, nothing is deployed and every call is built
  on that address.
\<close>

theorem missing_intermediary_contract:
  "((snd (runContractBridge w options) = Inl MissingIntermediaryContractError \<longrightarrow>
      \<not> opt_dryRun options \<and> \<not> opt_deployIfMissing options
      \<and> \<not> truthy (opt_transferContract options)
      \<and> (\<exists>k a. getPrivateKey w options = Inr (k, a)
           \<and> fst (runContractBridge w options) =
               fst (fetchAndValidate w options)
                 @ [Request (POST_swap 
                   \<lparr>par_from = opt_from options, par_to = opt_to options,
                   par_amount = opt_amount options, par_fromAddress = a,
                   par_recipient = opt_recipient options, par_fromContract = Some True,
                   par_dataToContract = None\<rparr>)]))
   \<and> (\<not> truthy (opt_transferContract options) \<and> \<not> opt_deployIfMissing options
       \<and> getPrivateKey w options = Inr (k, a)
       \<and> fetchAndValidate w options = (t, Inr (cs, fc))
       \<and> resolveMesonContractAddress (opt_mesonContract options) cs fc = Inr m
       \<and> axios_swap w 
                   \<lparr>par_from = opt_from options, par_to = opt_to options,
                   par_amount = opt_amount options, par_fromAddress = a,
                   par_recipient = opt_recipient options, par_fromContract = Some True,
                   par_dataToContract = None\<rparr> = Inr resp
       \<and> result resp = Some r \<and> res_encoded r \<noteq> [] \<longrightarrow>
      (opt_dryRun options \<longrightarrow>
         runContractBridge w options =
           (t @ [Request (POST_swap 
                   \<lparr>par_from = opt_from options, par_to = opt_to options,
                   par_amount = opt_amount options, par_fromAddress = a,
                   par_recipient = opt_recipient options, par_fromContract = Some True,
                   par_dataToContract = None\<rparr>),
                 DryRunContract (res_encoded r) m NotRequested (opt_recipient options) a
                   (opt_amount options)],
            Inr ()))
      \<and> (\<not> opt_dryRun options \<and> \<not> truthy (res_fromContract r) \<longrightarrow>
         runContractBridge w options =
           (t @ [Request (POST_swap 
                   \<lparr>par_from = opt_from options, par_to = opt_to options,
                   par_amount = opt_amount options, par_fromAddress = a,
                   par_recipient = opt_recipient options, par_fromContract = Some True,
                   par_dataToContract = None\<rparr>)],
            Inl MissingIntermediaryContractError))
      \<and> (\<not> opt_dryRun options \<and> truthy (res_fromContract r) \<longrightarrow>
         snd (runContractBridge w options) \<noteq> Inl MissingIntermediaryContractError)))
   \<and> (\<not> truthy (opt_transferContract options) \<and> \<not> opt_deployIfMissing options
       \<and> getPrivateKey w options = Inr (k, a)
       \<and> fetchAndValidate w options = (t, Inr (cs, fc))
       \<and> resolveMesonContractAddress (opt_mesonContract options) cs fc = Inr m \<longrightarrow>
      (\<exists>rest. fst (runContractBridge w options) =
         t @ Request (POST_swap 
                   \<lparr>par_from = opt_from options, par_to = opt_to options,
                   par_amount = opt_amount options, par_fromAddress = a,
                   par_recipient = opt_recipient options, par_fromContract = Some True,
                   par_dataToContract = None\<rparr>) # rest))
   \<and> (\<not> truthy (opt_transferContract options) \<and> \<not> opt_deployIfMissing options
       \<and> getPrivateKey w options = Inr (k, a)
       \<and> fetchAndValidate w options = (t, Inr (cs, fc))
       \<and> resolveMesonContractAddress (opt_mesonContract options) cs fc = Inr m
       \<and> axios_swap w 
                   \<lparr>par_from = opt_from options, par_to = opt_to options,
                   par_amount = opt_amount options, par_fromAddress = a,
                   par_recipient = opt_recipient options, par_fromContract = Some True,
                   par_dataToContract = None\<rparr> = Inr resp
       \<and> result resp = Some r \<and> res_encoded r \<noteq> []
       \<and> \<not> opt_dryRun options \<and> truthy (res_fromContract r) \<longrightarrow>
      fst (runContractBridge w options) =
        t @ [Request (POST_swap 
                   \<lparr>par_from = opt_from options, par_to = opt_to options,
                   par_amount = opt_amount options, par_fromAddress = a,
                   par_recipient = opt_recipient options, par_fromContract = Some True,
                   par_dataToContract = None\<rparr>)]
          @ fst (callTransferToMeson w (opt_rpcUrl options) m
                   (if truthy (res_initiator r) then r else r\<lparr>res_initiator := Some a\<rparr>) k
                   (opt_amount options) (res_fromContract r) False)
      \<and> (\<forall>ev \<in> set (fst (runContractBridge w options)).
            (\<forall>x. ev \<noteq> Deploy x)
            \<and> (\<forall>c n i x. ev = PopulateTransaction c n i x \<longrightarrow>
                  c = unwrap (res_fromContract r))))"
proof -
  have p1: "(snd (runContractBridge w options) = Inl MissingIntermediaryContractError \<longrightarrow>
      \<not> opt_dryRun options \<and> \<not> opt_deployIfMissing options
      \<and> \<not> truthy (opt_transferContract options)
      \<and> (\<exists>k a. getPrivateKey w options = Inr (k, a)
           \<and> fst (runContractBridge w options) =
               fst (fetchAndValidate w options)
                 @ [Request (POST_swap 
                   \<lparr>par_from = opt_from options, par_to = opt_to options,
                   par_amount = opt_amount options, par_fromAddress = a,
                   par_recipient = opt_recipient options, par_fromContract = Some True,
                   par_dataToContract = None\<rparr>)]))
   \<and> (\<not> truthy (opt_transferContract options) \<and> \<not> opt_deployIfMissing options
       \<and> getPrivateKey w options = Inr (k, a)
       \<and> fetchAndValidate w options = (t, Inr (cs, fc))
       \<and> resolveMesonContractAddress (opt_mesonContract options) cs fc = Inr m
       \<and> axios_swap w 
                   \<lparr>par_from = opt_from options, par_to = opt_to options,
                   par_amount = opt_amount options, par_fromAddress = a,
                   par_recipient = opt_recipient options, par_fromContract = Some True,
                   par_dataToContract = None\<rparr> = Inr resp
       \<and> result resp = Some r \<and> res_encoded r \<noteq> [] \<longrightarrow>
      (opt_dryRun options \<longrightarrow>
         runContractBridge w options =
           (t @ [Request (POST_swap 
                   \<lparr>par_from = opt_from options, par_to = opt_to options,
                   par_amount = opt_amount options, par_fromAddress = a,
                   par_recipient = opt_recipient options, par_fromContract = Some True,
                   par_dataToContract = None\<rparr>),
                 DryRunContract (res_encoded r) m NotRequested (opt_recipient options) a
                   (opt_amount options)],
            Inr ()))
      \<and> (\<not> opt_dryRun options \<and> \<not> truthy (res_fromContract r) \<longrightarrow>
         runContractBridge w options =
           (t @ [Request (POST_swap 
                   \<lparr>par_from = opt_from options, par_to = opt_to options,
                   par_amount = opt_amount options, par_fromAddress = a,
                   par_recipient = opt_recipient options, par_fromContract = Some True,
                   par_dataToContract = None\<rparr>)],
            Inl MissingIntermediaryContractError))
      \<and> (\<not> opt_dryRun options \<and> truthy (res_fromContract r) \<longrightarrow>
         snd (runContractBridge w options) \<noteq> Inl MissingIntermediaryContractError))"
    using runContractBridge_missing [of w options]
      runContractBridge_no_intermediary [of options w k a t cs fc m resp r]
    by blast
  have p2: "\<not> truthy (opt_transferContract options) \<and> \<not> opt_deployIfMissing options
       \<and> getPrivateKey w options = Inr (k, a)
       \<and> fetchAndValidate w options = (t, Inr (cs, fc))
       \<and> resolveMesonContractAddress (opt_mesonContract options) cs fc = Inr m \<longrightarrow>
      (\<exists>rest. fst (runContractBridge w options) =
         t @ Request (POST_swap 
                   \<lparr>par_from = opt_from options, par_to = opt_to options,
                   par_amount = opt_amount options, par_fromAddress = a,
                   par_recipient = opt_recipient options, par_fromContract = Some True,
                   par_dataToContract = None\<rparr>) # rest)"
    using runContractBridge_encode_first [of options w k a t cs fc m] by blast
  have p3: "\<not> truthy (opt_transferContract options) \<and> \<not> opt_deployIfMissing options
       \<and> getPrivateKey w options = Inr (k, a)
       \<and> fetchAndValidate w options = (t, Inr (cs, fc))
       \<and> resolveMesonContractAddress (opt_mesonContract options) cs fc = Inr m
       \<and> axios_swap w 
                   \<lparr>par_from = opt_from options, par_to = opt_to options,
                   par_amount = opt_amount options, par_fromAddress = a,
                   par_recipient = opt_recipient options, par_fromContract = Some True,
                   par_dataToContract = None\<rparr> = Inr resp
       \<and> result resp = Some r \<and> res_encoded r \<noteq> []
       \<and> \<not> opt_dryRun options \<and> truthy (res_fromContract r) \<longrightarrow>
      fst (runContractBridge w options) =
        t @ [Request (POST_swap 
                   \<lparr>par_from = opt_from options, par_to = opt_to options,
                   par_amount = opt_amount options, par_fromAddress = a,
                   par_recipient = opt_recipient options, par_fromContract = Some True,
                   par_dataToContract = None\<rparr>)]
          @ fst (callTransferToMeson w (opt_rpcUrl options) m
                   (if truthy (res_initiator r) then r else r\<lparr>res_initiator := Some a\<rparr>) k
                   (opt_amount options) (res_fromContract r) False)
      \<and> (\<forall>ev \<in> set (fst (runContractBridge w options)).
            (\<forall>x. ev \<noteq> Deploy x)
            \<and> (\<forall>c n i x. ev = PopulateTransaction c n i x \<longrightarrow>
                  c = unwrap (res_fromContract r)))"
    using runContractBridge_adopted [of options w k a t cs fc m resp r] by blast
  show ?thesis
    by (rule conjI [OF p1 conjI [OF p2 p3]])
qed

theorem missing_intermediary_contract_witness:
  "\<not> truthy (opt_transferContract sample_contract_options)
   \<and> \<not> opt_deployIfMissing sample_contract_options
   \<and> getPrivateKey sample_world sample_contract_options = Inr (''key'', ''0xME'')
   \<and> fetchAndValidate sample_world sample_contract_options
       = ([Request GET_list, Request GET_limits], Inr (sample_chains, ''base''))
   \<and> resolveMesonContractAddress (opt_mesonContract sample_contract_options) sample_chains
         ''base'' = Inr ''0xAAA''
   \<and> res_encoded sample_result \<noteq> [] \<and> \<not> truthy (res_fromContract sample_result)
   \<and> runContractBridge sample_world sample_contract_options =
       ([Request GET_list, Request GET_limits,
         Request (POST_swap \<lparr>par_from = ''base:eth'', par_to = ''blast:usdc'',
            par_amount = ''10'', par_fromAddress = ''0xME'', par_recipient = ''0xR'',
            par_fromContract = Some True, par_dataToContract = None\<rparr>)],
        Inl MissingIntermediaryContractError)
   \<and> runContractBridge sample_world (sample_contract_options\<lparr>opt_dryRun := True\<rparr>) =
       ([Request GET_list, Request GET_limits,
         Request (POST_swap \<lparr>par_from = ''base:eth'', par_to = ''blast:usdc'',
            par_amount = ''10'', par_fromAddress = ''0xME'', par_recipient = ''0xR'',
            par_fromContract = Some True, par_dataToContract = None\<rparr>),
         DryRunContract ''0x1'' ''0xAAA'' NotRequested ''0xR'' ''0xME'' ''10''],
        Inr ())
   \<and> truthy (res_fromContract (sample_result\<lparr>res_fromContract := Some ''0xFC''\<rparr>))
   \<and> fst (runContractBridge
         (sample_world\<lparr>axios_swap := (\<lambda>p. Inr \<lparr>result =
             Some (sample_result\<lparr>res_fromContract := Some ''0xFC''\<rparr>), error = None\<rparr>)\<rparr>)
         sample_contract_options) =
       [Request GET_list, Request GET_limits,
        Request (POST_swap \<lparr>par_from = ''base:eth'', par_to = ''blast:usdc'',
           par_amount = ''10'', par_fromAddress = ''0xME'', par_recipient = ''0xR'',
           par_fromContract = Some True, par_dataToContract = None\<rparr>),
        PopulateTransaction ''0xFC'' 1 (Some ''0xME'') ''10'',
        EstimateGas \<lparr>tx_to = ''0xFC'', tx_data = ''d'', tx_value = 0\<rparr>,
        SendTransaction \<lparr>tx_to = ''0xFC'', tx_data = ''d'', tx_value = 0\<rparr> 120001,
        WaitReceipt ''0xH'']"
  using missing_intermediary_contract [of sample_world sample_contract_options
      "''key''" "''0xME''" "[Request GET_list, Request GET_limits]" sample_chains "''base''"
      "''0xAAA''" "\<lparr>result = Some sample_result, error = None\<rparr>" sample_result]
    missing_intermediary_contract [of sample_world
      "sample_contract_options\<lparr>opt_dryRun := True\<rparr>"
      "''key''" "''0xME''" "[Request GET_list, Request GET_limits]" sample_chains "''base''"
      "''0xAAA''" "\<lparr>result = Some sample_result, error = None\<rparr>" sample_result]
    missing_intermediary_contract [of
      "sample_world\<lparr>axios_swap := (\<lambda>p. Inr \<lparr>result =
         Some (sample_result\<lparr>res_fromContract := Some ''0xFC''\<rparr>), error = None\<rparr>)\<rparr>"
      sample_contract_options
      "''key''" "''0xME''" "[Request GET_list, Request GET_limits]" sample_chains "''base''"
      "''0xAAA''"
      "\<lparr>result = Some (sample_result\<lparr>res_fromContract := Some ''0xFC''\<rparr>), error = None\<rparr>"
      "sample_result\<lparr>res_fromContract := Some ''0xFC''\<rparr>"]
  by (simp add: flow_defs start_defs io_defs sample_defs signed_divide_int_def)

text \<open>
  The claim as stated fails: with no override, no deploy-if-missing and no dry run, the
  error is raised after the encode request has been sent, not before it; and it is not
  raised at all when the relayer's answer names a \<open>fromContract\<close> address, which the flow
  then uses as the intermediary contract.
\<close>

theorem missing_intermediary_contract_counterexample:
  "\<not> truthy (opt_transferContract sample_contract_options)
   \<and> \<not> opt_deployIfMissing sample_contract_options
   \<and> \<not> opt_dryRun sample_contract_options
   \<and> runContractBridge sample_world sample_contract_options =
       ([Request GET_list, Request GET_limits,
         Request (POST_swap \<lparr>par_from = ''base:eth'', par_to = ''blast:usdc'',
            par_amount = ''10'', par_fromAddress = ''0xME'', par_recipient = ''0xR'',
            par_fromContract = Some True, par_dataToContract = None\<rparr>)],
        Inl MissingIntermediaryContractError)
   \<and> runContractBridge
         (sample_world\<lparr>axios_swap := (\<lambda>p. Inr \<lparr>result =
             Some (sample_result\<lparr>res_fromContract := Some ''0xFC''\<rparr>), error = None\<rparr>)\<rparr>)
         sample_contract_options =
       ([Request GET_list, Request GET_limits,
         Request (POST_swap \<lparr>par_from = ''base:eth'', par_to = ''blast:usdc'',
            par_amount = ''10'', par_fromAddress = ''0xME'', par_recipient = ''0xR'',
            par_fromContract = Some True, par_dataToContract = None\<rparr>),
         PopulateTransaction ''0xFC'' 1 (Some ''0xME'') ''10'',
         EstimateGas \<lparr>tx_to = ''0xFC'', tx_data = ''d'', tx_value = 0\<rparr>,
         SendTransaction \<lparr>tx_to = ''0xFC'', tx_data = ''d'', tx_value = 0\<rparr> 120001,
         WaitReceipt ''0xH''],
        Inr ())"
  by (simp add: flow_defs start_defs io_defs sample_defs signed_divide_int_def)

end
